theory Spec2Isabelle
  imports Complex_Main
begin

section \<open>Binary64 arithmetic, as Python and numpy compute it\<close>

text \<open>
  Every number of the two scenario scripts that carries a decimal point is a Python
  \<^verbatim>\<open>float\<close> or a numpy \<^verbatim>\<open>float64\<close>: an IEEE 754 binary64 value, with every
  operation rounded to nearest, ties to even. A finite value is kept as the rational it
  denotes (\<open>Finite 0\<close> is \<open>+0.0\<close>); the negative zero, the two infinities and the
  not-a-number are values of their own.
\<close>

datatype float64 = Finite rat | NegZero | PosInf | NegInf | NaN

text \<open>
  \<open>ilen b a\<close> is the number of digits of a positive integer \<open>a\<close> in base \<open>b\<close>, and
  \<open>ilog b x\<close> the integer part of the logarithm of a positive rational \<open>x\<close> to base \<open>b\<close>.
\<close>

function ilen :: "int \<Rightarrow> int \<Rightarrow> int" where
  "ilen b a = (if 0 < a \<and> 1 < b then ilen b (a div b) + 1 else 0)"
  by pat_completeness auto
termination
proof (relation "measure (\<lambda>(b, a). nat a)")
  show "wf (measure (\<lambda>(b, a). nat a))"
    by simp
next
  fix b a :: int
  assume "0 < a \<and> 1 < b"
  then have "a div b < a"
    by (simp add: int_div_less_self)
  then show "((b, a div b), (b, a)) \<in> measure (\<lambda>(b, a). nat a)"
    using \<open>0 < a \<and> 1 < b\<close> by simp
qed

declare ilen.simps [simp del]

definition ilog :: "int \<Rightarrow> rat \<Rightarrow> int" where
  "ilog b x =
     (if 1 \<le> x then ilen b \<lfloor>x\<rfloor> - 1
      else - ilen b (\<lceil>1 / x\<rceil> - 1))"

text \<open>The nearest integer, a tie going to the even neighbour.\<close>

definition round_half_even :: "rat \<Rightarrow> int" where
  "round_half_even x =
     (let f = \<lfloor>x\<rfloor>; d = x - of_int f
      in if d < 1 / 2 then f
         else if 1 / 2 < d then f + 1
         else if even f then f else f + 1)"

text \<open>
  Rounding a rational to binary64. The value keeps 53 significant bits; the exponent of
  its last bit, \<open>ulp_for\<close>, is never below \<open>-1074\<close> (the subnormal range). \<open>nearest x\<close>
  is the multiple of that unit nearest to \<open>x\<close>. A rounded magnitude that reaches
  \<open>2 ^ 1024\<close> overflows to an infinity, and a result that underflows to zero keeps the
  sign of \<open>x\<close>.
\<close>

definition ulp_for :: "rat \<Rightarrow> rat" where
  "ulp_for x = 2 powi (max (ilog 2 \<bar>x\<bar>) (- 1022) - 52)"

definition nearest :: "rat \<Rightarrow> rat" where
  "nearest x = (let u = ulp_for x in of_int (round_half_even (x / u)) * u)"

definition huge :: rat where
  "huge = 2 ^ 1024"

definition round_binary64 :: "rat \<Rightarrow> float64" where
  "round_binary64 x =
     (if x = 0 then Finite 0
      else
        let r = nearest x
        in if huge \<le> \<bar>r\<bar> then (if x < 0 then NegInf else PosInf)
           else if r = 0 then (if x < 0 then NegZero else Finite 0)
           else Finite r)"

text \<open>Whether a rational is a binary64 value, so that \<open>Finite q\<close> is one a program can hold.\<close>

definition representable :: "rat \<Rightarrow> bool" where
  "representable q \<longleftrightarrow> round_binary64 q = Finite q"

definition is_nan :: "float64 \<Rightarrow> bool" where
  "is_nan x \<longleftrightarrow> x = NaN"

definition is_inf :: "float64 \<Rightarrow> bool" where
  "is_inf x \<longleftrightarrow> x = PosInf \<or> x = NegInf"

definition is_zero :: "float64 \<Rightarrow> bool" where
  "is_zero x \<longleftrightarrow> x = Finite 0 \<or> x = NegZero"

fun sign_bit :: "float64 \<Rightarrow> bool" where
  "sign_bit (Finite q) = (q < 0)"
| "sign_bit NegZero = True"
| "sign_bit PosInf = False"
| "sign_bit NegInf = True"
| "sign_bit NaN = False"

definition signed_zero :: "bool \<Rightarrow> float64" where
  "signed_zero s = (if s then NegZero else Finite 0)"

definition signed_inf :: "bool \<Rightarrow> float64" where
  "signed_inf s = (if s then NegInf else PosInf)"

text \<open>The rational a finite value denotes (both zeros denote 0).\<close>

fun value_of :: "float64 \<Rightarrow> rat" where
  "value_of (Finite q) = q"
| "value_of _ = 0"

fun fneg :: "float64 \<Rightarrow> float64" where
  "fneg (Finite q) = (if q = 0 then NegZero else Finite (- q))"
| "fneg NegZero = Finite 0"
| "fneg PosInf = NegInf"
| "fneg NegInf = PosInf"
| "fneg NaN = NaN"

definition fadd :: "float64 \<Rightarrow> float64 \<Rightarrow> float64" where
  "fadd x y =
     (if is_nan x \<or> is_nan y then NaN
      else if is_inf x then (if is_inf y \<and> x \<noteq> y then NaN else x)
      else if is_inf y then y
      else if x = NegZero then y
      else if y = NegZero then x
      else round_binary64 (value_of x + value_of y))"

definition fsub :: "float64 \<Rightarrow> float64 \<Rightarrow> float64" where
  "fsub x y = fadd x (fneg y)"

definition fmul :: "float64 \<Rightarrow> float64 \<Rightarrow> float64" where
  "fmul x y =
     (let s = (sign_bit x \<noteq> sign_bit y)
      in if is_nan x \<or> is_nan y then NaN
         else if is_inf x \<or> is_inf y then
           (if is_zero x \<or> is_zero y then NaN else signed_inf s)
         else if is_zero x \<or> is_zero y then signed_zero s
         else round_binary64 (value_of x * value_of y))"

text \<open>
  Division of numpy arrays raises nothing: a nonzero value over a zero is an infinity
  of the product's sign, zero over zero is not-a-number.
\<close>

definition fdiv :: "float64 \<Rightarrow> float64 \<Rightarrow> float64" where
  "fdiv x y =
     (let s = (sign_bit x \<noteq> sign_bit y)
      in if is_nan x \<or> is_nan y then NaN
         else if is_inf x then (if is_inf y then NaN else signed_inf s)
         else if is_inf y then signed_zero s
         else if is_zero y then (if is_zero x then NaN else signed_inf s)
         else if is_zero x then signed_zero s
         else round_binary64 (value_of x / value_of y))"

text \<open>The comparison \<^verbatim>\<open>0 < x\<close> of IEEE 754: false on both zeros and on not-a-number.\<close>

fun positive :: "float64 \<Rightarrow> bool" where
  "positive (Finite q) = (0 < q)"
| "positive PosInf = True"
| "positive _ = False"

text \<open>A decimal literal of the source denotes the binary64 value nearest to it.\<close>

definition literal :: "rat \<Rightarrow> float64" where
  "literal q = round_binary64 q"


section \<open>Text: what \<^verbatim>\<open>str\<close>, \<^verbatim>\<open>repr\<close>, the format specifications and \<^verbatim>\<open>strftime\<close> write\<close>

definition newline :: char where
  "newline = CHR 0x0A"

definition dquote :: char where
  "dquote = CHR 0x22"

text \<open>The check mark U+2705 that the scripts print, as its three UTF-8 bytes.\<close>

definition check_mark :: string where
  "check_mark = [CHR 0xE2, CHR 0x9C, CHR 0x85]"

definition digit_char :: "int \<Rightarrow> char" where
  "digit_char d = ''0123456789'' ! nat d"

text \<open>The decimal digits of a non-negative integer.\<close>

function digits :: "int \<Rightarrow> string" where
  "digits n = (if n < 10 then [digit_char n] else digits (n div 10) @ [digit_char (n mod 10)])"
  by pat_completeness auto
termination
  by (relation "measure nat") auto

declare digits.simps [simp del]

definition str_int :: "int \<Rightarrow> string" where
  "str_int n = (if n < 0 then ''-'' @ digits (- n) else digits n)"

definition zfill :: "nat \<Rightarrow> string \<Rightarrow> string" where
  "zfill w s = replicate (w - length s) CHR ''0'' @ s"

text \<open>
  \<^verbatim>\<open>'%.pf' % x\<close> and \<^verbatim>\<open>format(x, '.pf')\<close>: the exact binary value rounded to \<open>p\<close>
  decimals, ties to even; the sign is kept when the magnitude rounds to zero.
\<close>

definition fixed_digits :: "nat \<Rightarrow> rat \<Rightarrow> string" where
  "fixed_digits p q =
     (let n = round_half_even (\<bar>q\<bar> * 10 ^ p)
      in digits (n div 10 ^ p) @ (if p = 0 then [] else ''.'' @ zfill p (digits (n mod 10 ^ p))))"

fun format_fixed :: "nat \<Rightarrow> float64 \<Rightarrow> string" where
  "format_fixed p (Finite q) = (if q < 0 then ''-'' else []) @ fixed_digits p q"
| "format_fixed p NegZero = ''-'' @ fixed_digits p 0"
| "format_fixed p PosInf = ''inf''"
| "format_fixed p NegInf = ''-inf''"
| "format_fixed p NaN = ''nan''"

text \<open>
  \<^verbatim>\<open>repr\<close> of a float (what an f-string without a format specification and the csv
  writer use): the shortest decimal that reads back as the same binary64 value. For
  \<open>k = 1, 2, \<dots>\<close> significant digits the two \<open>k\<close>-digit decimals around \<open>x\<close> are
  tried, and of those that read back the nearer one is taken; 17 digits always suffice.
  The result \<open>(n, p)\<close> stands for \<open>n * 10 ^ p\<close>.
\<close>

definition reads_back :: "rat \<Rightarrow> int \<Rightarrow> int \<Rightarrow> bool" where
  "reads_back x n p \<longleftrightarrow> round_binary64 (of_int n * 10 powi p) = Finite x"

function shortest_from :: "int \<Rightarrow> rat \<Rightarrow> int \<times> int" where
  "shortest_from k x =
     (let p = ilog 10 x - (k - 1);
          y = x / 10 powi p;
          lo = \<lfloor>y\<rfloor>;
          hi = lo + 1
      in if 17 \<le> k then (round_half_even y, p)
         else if reads_back x lo p \<and> reads_back x hi p then
           (if y - of_int lo < of_int hi - y then (lo, p)
            else if of_int hi - y < y - of_int lo then (hi, p)
            else if even lo then (lo, p) else (hi, p))
         else if reads_back x lo p then (lo, p)
         else if reads_back x hi p then (hi, p)
         else shortest_from (k + 1) x)"
  by pat_completeness auto
termination
  by (relation "measure (\<lambda>(k, x). nat (17 - k))") auto

declare shortest_from.simps [simp del]

function strip_zeros :: "int \<times> int \<Rightarrow> int \<times> int" where
  "strip_zeros (n, p) =
     (if 0 < n \<and> n mod 10 = 0 then strip_zeros (n div 10, p + 1) else (n, p))"
  by pat_completeness auto
termination
  by (relation "measure (\<lambda>(n, p). nat n)") auto

declare strip_zeros.simps [simp del]

text \<open>
  The layout of \<^verbatim>\<open>repr\<close>: \<open>decpt\<close> is the position of the decimal point relative to
  the digit string; exponent notation when \<open>decpt \<le> -4\<close> or \<open>16 < decpt\<close>.
\<close>

definition repr_layout :: "string \<Rightarrow> int \<Rightarrow> string" where
  "repr_layout ds decpt =
     (let k = int (length ds)
      in if decpt \<le> - 4 \<or> 16 < decpt then
           take 1 ds @ (if k = 1 then [] else ''.'' @ drop 1 ds) @ ''e''
             @ (if decpt - 1 < 0 then ''-'' else ''+'') @ zfill 2 (digits \<bar>decpt - 1\<bar>)
         else if decpt \<le> 0 then ''0.'' @ replicate (nat (- decpt)) CHR ''0'' @ ds
         else if k \<le> decpt then ds @ replicate (nat (decpt - k)) CHR ''0'' @ ''.0''
         else take (nat decpt) ds @ ''.'' @ drop (nat decpt) ds)"

definition repr_magnitude :: "rat \<Rightarrow> string" where
  "repr_magnitude x =
     (case strip_zeros (shortest_from 1 x) of
        (n, p) \<Rightarrow> repr_layout (digits n) (int (length (digits n)) + p))"

fun py_repr :: "float64 \<Rightarrow> string" where
  "py_repr (Finite q) =
     (if q = 0 then ''0.0''
      else if q < 0 then ''-'' @ repr_magnitude (- q)
      else repr_magnitude q)"
| "py_repr NegZero = ''-0.0''"
| "py_repr PosInf = ''inf''"
| "py_repr NegInf = ''-inf''"
| "py_repr NaN = ''nan''"

text \<open>
  \<^verbatim>\<open>pd.Timestamp.now()\<close> reads the clock; the fields it returns are the one input of a
  run that the program does not fix. \<^verbatim>\<open>strftime("%Y-%m-%d %H:%M:%S")\<close> pads each
  field with zeros to its width.
\<close>

record timestamp =
  year :: int
  month :: int
  day :: int
  hour :: int
  minute :: int
  second :: int

text \<open>The fields of a pandas \<^verbatim>\<open>Timestamp\<close>, whose years range from 1677 to 2262.\<close>

definition valid_timestamp :: "timestamp \<Rightarrow> bool" where
  "valid_timestamp t \<longleftrightarrow>
     1677 \<le> year t \<and> year t \<le> 2262 \<and> 1 \<le> month t \<and> month t \<le> 12 \<and>
     1 \<le> day t \<and> day t \<le> 31 \<and> 0 \<le> hour t \<and> hour t \<le> 23 \<and>
     0 \<le> minute t \<and> minute t \<le> 59 \<and> 0 \<le> second t \<and> second t \<le> 59"

definition strftime :: "timestamp \<Rightarrow> string" where
  "strftime t =
     zfill 4 (digits (year t)) @ ''-'' @ zfill 2 (digits (month t)) @ ''-''
       @ zfill 2 (digits (day t)) @ '' '' @ zfill 2 (digits (hour t)) @ '':''
       @ zfill 2 (digits (minute t)) @ '':'' @ zfill 2 (digits (second t))"

text \<open>The lines of a text, for speaking about one line of a written file.\<close>

definition split_lines :: "string \<Rightarrow> string list" where
  "split_lines s =
     foldr (\<lambda>c acc. if c = newline then [] # acc
                     else (case acc of [] \<Rightarrow> [[c]] | l # ls \<Rightarrow> (c # l) # ls)) s []"


section \<open>pandas: a frame is its columns in order\<close>

datatype cell = I int | F float64 | S string

type_synonym dataframe = "(string \<times> cell list) list"

datatype error = ValueError | KeyError

text \<open>\<^verbatim>\<open>pd.DataFrame(dict)\<close> raises ValueError when the lists differ in length.\<close>

definition DataFrame :: "(string \<times> cell list) list \<Rightarrow> error + dataframe" where
  "DataFrame cols =
     (case cols of
        [] \<Rightarrow> Inr []
      | c # cs \<Rightarrow>
          if list_all (\<lambda>d. length (snd d) = length (snd c)) cs then Inr cols
          else Inl ValueError)"

text \<open>\<^verbatim>\<open>df[name] = values\<close>: a new column goes last, an existing one is replaced in place.\<close>

definition assign :: "dataframe \<Rightarrow> string \<Rightarrow> cell list \<Rightarrow> dataframe" where
  "assign df name vals =
     (if name \<in> set (map fst df)
      then map (\<lambda>c. if fst c = name then (name, vals) else c) df
      else df @ [(name, vals)])"

text \<open>\<^verbatim>\<open>df[[names]]\<close>: the named columns in the order asked for; KeyError when one is missing.\<close>

definition select :: "dataframe \<Rightarrow> string list \<Rightarrow> error + dataframe" where
  "select df names =
     (case those (map (\<lambda>n. map_option (Pair n) (map_of df n)) names) of
        None \<Rightarrow> Inl KeyError
      | Some cols \<Rightarrow> Inr cols)"

text \<open>The values of a column of a frame (empty when the frame has no such column).\<close>

definition column :: "dataframe \<Rightarrow> string \<Rightarrow> cell list" where
  "column df name = (case map_of df name of None \<Rightarrow> [] | Some vals \<Rightarrow> vals)"

text \<open>\<^verbatim>\<open>np.where(cond, a, b)\<close>, elementwise.\<close>

definition np_where :: "bool list \<Rightarrow> 'a list \<Rightarrow> 'a list \<Rightarrow> 'a list" where
  "np_where cond xs ys = map (\<lambda>(c, x, y). if c then x else y) (zip cond (zip xs ys))"

text \<open>
  \<^verbatim>\<open>Series.sum()\<close> skips missing values (a not-a-number counts as \<open>0.0\<close>) and hands
  the column to numpy's \<^verbatim>\<open>add.reduce\<close>, which adds the pairwise sum of the column to
  its initial value \<open>0.0\<close>. The pairwise sum of fewer than eight values adds them from
  left to right, starting at \<open>-0.0\<close>. Up to 128 values it keeps eight running sums, one
  for every eighth position (\<open>accumulate\<close>), adds the eight as a balanced tree and then
  adds the values beyond the last full group of eight, one by one. A longer column is
  split near its middle, at a multiple of eight, and the sums of the two parts are added.
\<close>

function accumulate :: "float64 list \<Rightarrow> float64 list \<Rightarrow> float64 list" where
  "accumulate r a =
     (if length a < 8 then r
      else accumulate (map (\<lambda>(x, y). fadd x y) (zip r (take 8 a))) (drop 8 a))"
  by pat_completeness auto
termination
  by (relation "measure (\<lambda>(r, a). length a)") auto

declare accumulate.simps [simp del]

definition block_sum :: "float64 list \<Rightarrow> float64" where
  "block_sum a =
     (let r = accumulate (take 8 a) (drop 8 a);
          res = fadd (fadd (fadd (r ! 0) (r ! 1)) (fadd (r ! 2) (r ! 3)))
                     (fadd (fadd (r ! 4) (r ! 5)) (fadd (r ! 6) (r ! 7)))
      in foldl fadd res (drop (length a - length a mod 8) a))"

definition split_point :: "nat \<Rightarrow> nat" where
  "split_point n = n div 2 - (n div 2) mod 8"

function pairwise_sum :: "float64 list \<Rightarrow> float64" where
  "pairwise_sum a =
     (if length a < 8 then foldl fadd NegZero a
      else if length a \<le> 128 then block_sum a
      else fadd (pairwise_sum (take (split_point (length a)) a))
                (pairwise_sum (drop (split_point (length a)) a)))"
  by pat_completeness auto
termination
  by (relation "measure length") (auto simp add: split_point_def)

declare pairwise_sum.simps [simp del]

definition series_sum :: "float64 list \<Rightarrow> float64" where
  "series_sum xs =
     fadd (Finite 0) (pairwise_sum (map (\<lambda>x. if is_nan x then Finite 0 else x) xs))"

text \<open>
  \<^verbatim>\<open>to_csv(f, index=False, float_format=fmt)\<close>: a header row of the column names, then
  one row per record, fields joined by commas, every row ended by a newline. A float is
  written with the format when one is given and with \<^verbatim>\<open>repr\<close> otherwise, a missing
  value as the empty string. A field holding a comma, a double quote or a line break is
  wrapped in double quotes, with the quotes inside doubled.
\<close>

definition csv_cell :: "nat option \<Rightarrow> cell \<Rightarrow> string" where
  "csv_cell float_format c =
     (case c of
        I n \<Rightarrow> str_int n
      | S s \<Rightarrow> s
      | F x \<Rightarrow>
          if is_nan x then []
          else (case float_format of None \<Rightarrow> py_repr x | Some p \<Rightarrow> format_fixed p x))"

definition csv_field :: "string \<Rightarrow> string" where
  "csv_field s =
     (if list_ex (\<lambda>c. c = CHR '','' \<or> c = dquote \<or> c = newline \<or> c = CHR 0x0D) s
      then [dquote] @ concat (map (\<lambda>c. if c = dquote then [dquote, dquote] else [c]) s) @ [dquote]
      else s)"

fun join :: "string \<Rightarrow> string list \<Rightarrow> string" where
  "join sep [] = []"
| "join sep [x] = x"
| "join sep (x # y # ys) = x @ sep @ join sep (y # ys)"

definition csv_row :: "string list \<Rightarrow> string" where
  "csv_row texts = join '','' (map csv_field texts) @ [newline]"

definition to_csv :: "dataframe \<Rightarrow> nat option \<Rightarrow> string" where
  "to_csv df float_format =
     csv_row (map fst df)
       @ concat (map (\<lambda>r. csv_row (map (csv_cell float_format) r)) (transpose (map snd df)))"

text \<open>
  What a run leaves behind: the values printed, in order, and the files written.
  \<^verbatim>\<open>print(df.to_markdown(index=False, floatfmt=f))\<close> is recorded as the frame and the
  float format handed to the table renderer; the grid it draws is the renderer's.
  \<^verbatim>\<open>open(path, 'w')\<close> replaces whatever the path held.
\<close>

datatype printed = Text string | Markdown dataframe "string option"

record world =
  stdout :: "printed list"
  disk :: "string \<rightharpoonup> string"

definition print :: "printed \<Rightarrow> world \<Rightarrow> world" where
  "print p w = w\<lparr>stdout := stdout w @ [p]\<rparr>"

definition write_file :: "string \<Rightarrow> string \<Rightarrow> world \<Rightarrow> world" where
  "write_file path text w = w\<lparr>disk := (disk w)(path \<mapsto> text)\<rparr>"

text \<open>A process that has printed nothing yet, on a disk without files.\<close>

definition empty_world :: world where
  "empty_world = \<lparr>stdout = [], disk = Map.empty\<rparr>"

section \<open>Scenario B: \<^verbatim>\<open>scenario_B_iptw_calculation.py\<close>\<close>

definition OUTPUT_FILEPATH_B :: string where
  "OUTPUT_FILEPATH_B = ''data/scenario_B_results.csv''"

definition P_A1 :: float64 where
  "P_A1 = literal (5 / 10)"

record locals_B =
  df :: dataframe
  results_table :: dataframe
  sum_siptw :: float64

definition metadata_B :: "timestamp \<Rightarrow> string" where
  "metadata_B now =
     ''# Results for Scenario B: IPTW and Stabilized IPTW Calculation'' @ [newline]
     @ ''# ------------------------------------------------------------------'' @ [newline]
     @ ''# Task: Calculate Raw IPTW, Stabilized IPTW, and the Sum of SIPTW.'' @ [newline]
     @ ''# ASSUMPTION: Marginal Probability P(A=1) = '' @ py_repr P_A1 @ [newline]
     @ ''# Columns: Raw IPTW and Stabilized IPTW per patient.'' @ [newline]
     @ ''# Date Generated: '' @ strftime now @ [newline]
     @ ''# ------------------------------------------------------------------'' @ [newline]"

text \<open>
  The four column computations of the source (its steps 1 and 2 and its tasks 1 and 2).
  The arithmetic is numpy's, elementwise on whole columns; nothing in it checks a value.
\<close>

definition conditional_probability :: "int list \<Rightarrow> float64 list \<Rightarrow> float64 list" where
  "conditional_probability a g = np_where (map (\<lambda>x. x = 1) a) g (map (fsub (Finite 1)) g)"

definition raw_weights :: "float64 list \<Rightarrow> float64 list" where
  "raw_weights p_a_l = map (fdiv (Finite 1)) p_a_l"

definition marginal_probability :: "int list \<Rightarrow> float64 list" where
  "marginal_probability a =
     np_where (map (\<lambda>x. x = 1) a) (replicate (length a) P_A1)
       (replicate (length a) (fsub (Finite 1) P_A1))"

definition stabilized_weights :: "float64 list \<Rightarrow> float64 list \<Rightarrow> float64 list" where
  "stabilized_weights p_a p_a_l = map (\<lambda>(m, c). fdiv m c) (zip p_a p_a_l)"

text \<open>The body of \<^verbatim>\<open>calculate_iptw_weights\<close> on a table given as its three columns.\<close>

definition calculate_iptw_weights_on ::
  "int list \<Rightarrow> int list \<Rightarrow> float64 list \<Rightarrow> timestamp \<Rightarrow> world \<Rightarrow> error + locals_B \<times> world"
where
  "calculate_iptw_weights_on patient_id a g now w0 =
     (case DataFrame [(''Patient ID'', map I patient_id),
                      (''A (Treatment)'', map I a),
                      (''g (Propensity Score)'', map F g)] of
        Inl e \<Rightarrow> Inl e
      | Inr df0 \<Rightarrow>
          let w1 = print (Text ''--- Scenario B: Initial Data ---'') w0;
              w2 = print (Markdown df0 None) w1;
              w3 = print (Text (''Assumption: Marginal P(A=1) = '' @ py_repr P_A1)) w2;
              w4 = print (Text (replicate 60 CHR ''-'')) w3;
              p_a_l = conditional_probability a g;
              df1 = assign df0 ''P(A|L)'' (map F p_a_l);
              raw_iptw = raw_weights p_a_l;
              df2 = assign df1 ''Raw IPTW'' (map F raw_iptw);
              p_a = marginal_probability a;
              df3 = assign df2 ''P(A)'' (map F p_a);
              stabilized_iptw = stabilized_weights p_a p_a_l;
              df4 = assign df3 ''Stabilized IPTW'' (map F stabilized_iptw);
              total = series_sum stabilized_iptw
          in (case select df4 [''Patient ID'', ''A (Treatment)'', ''g (Propensity Score)'',
                               ''Raw IPTW'', ''Stabilized IPTW''] of
               Inl e \<Rightarrow> Inl e
             | Inr table \<Rightarrow>
                 let w5 = print (Text ''--- IPTW and SIPTW Results per Patient ---'') w4;
                     w6 = print (Markdown table (Some ''.4f'')) w5;
                     w7 = print (Text (replicate 60 CHR ''-'')) w6;
                     w8 = print (Text (check_mark
                            @ '' Final Sum of Stabilized Weights (Cohort Sum of SIPTW): ''
                            @ format_fixed 4 total)) w7;
                     w9 = print (Text (replicate 60 CHR ''-'')) w8;
                     w10 = write_file OUTPUT_FILEPATH_B
                             (metadata_B now @ to_csv table (Some 4)) w9;
                     w11 = print (Text ([newline] @ check_mark
                             @ '' Numerical results successfully saved to: ''
                             @ OUTPUT_FILEPATH_B @ '' (Includes metadata header)'')) w10
                 in Inr (\<lparr>df = df4, results_table = table, sum_siptw = total\<rparr>, w11)))"

text \<open>The program itself: the table is the literal of the source.\<close>

definition calculate_iptw_weights :: "timestamp \<Rightarrow> world \<Rightarrow> error + locals_B \<times> world" where
  "calculate_iptw_weights =
     calculate_iptw_weights_on [1, 2, 3, 4] [1, 1, 0, 0]
       [literal (8 / 10), literal (4 / 10), literal (9 / 10), literal (2 / 10)]"

section \<open>Scenario C: \<^verbatim>\<open>scenario_C_calibration_evaluation.py\<close>\<close>

definition OUTPUT_FILEPATH_C :: string where
  "OUTPUT_FILEPATH_C = ''data/scenario_C_results.csv''"

definition CITL_BIAS :: float64 where
  "CITL_BIAS = literal (- (10 / 100))"

definition OBSERVED_RATE :: float64 where
  "OBSERVED_RATE = literal (1 / 10)"

definition CALIBRATION_SLOPE :: float64 where
  "CALIBRATION_SLOPE = literal (70 / 100)"

record locals_C =
  average_predicted_prob :: float64
  results_df :: dataframe

definition metadata_C :: "float64 \<Rightarrow> float64 \<Rightarrow> timestamp \<Rightarrow> string" where
  "metadata_C citl_bias observed_rate now =
     ''# Results for Scenario C: Calibration Evaluation'' @ [newline]
     @ ''# ------------------------------------------------------------------'' @ [newline]
     @ ''# Task: Calculate Average Predicted Probability and provide interpretations.''
     @ [newline]
     @ ''# Input Values: CITL Bias='' @ py_repr citl_bias @ '', Observed Rate=''
     @ py_repr observed_rate @ [newline]
     @ ''# Date Generated: '' @ strftime now @ [newline]
     @ ''# ------------------------------------------------------------------'' @ [newline]"

text \<open>
  The dictionary \<^verbatim>\<open>interpretation_data\<close>. Its first and third texts are plain string
  literals; the second is an f-string that writes the two inputs and their sum into the
  sentence.
\<close>

definition interpretation_data ::
  "float64 \<Rightarrow> float64 \<Rightarrow> float64 \<Rightarrow> float64 \<Rightarrow> (string \<times> cell list) list"
where
  "interpretation_data citl_bias observed_rate calibration_slope avg =
     [(''Metric'',
         [S ''1. Calibration Slope'',
          S ''2. Average Predicted Probability (Calculated)'',
          S ''3. Clinical Implication (Slope 0.70)'']),
      (''Result'', [F calibration_slope, F avg, S ''N/A'']),
      (''Calculation/Interpretation Logic'',
         [S ''The ideal slope is 1.0. A slope of 0.70 (< 1.0) indicates **poor refinement** and **overly extreme predictions** (Over-fitting). The model is too confident in its predictions.'',
          S (''Logic: Avg. Predicted Prob. = CITL Bias + Observed Rate. '' @ py_repr citl_bias
             @ '' + '' @ py_repr observed_rate @ '' = '' @ format_fixed 2 avg
             @ ''. A result of 0.0 means the model is perfectly calibrated *on average* (CITL=0), as the observed rate is also 0.1. *Note: This is an unusual outcome based on the given inputs.*''),
          S ''For individual patients, the model overestimates high risks (e.g., predicting 80% when true risk is 60%) and underestimates low risks. This lack of reliability compromises clinical decision-making based on specific probabilities.''])]"

text \<open>
  The body of \<^verbatim>\<open>analyze_calibration_metrics\<close> on the three numbers it binds at its
  start (\<^verbatim>\<open>N_TOTAL\<close> is bound and never read).
\<close>

definition analyze_calibration_metrics_on ::
  "float64 \<Rightarrow> float64 \<Rightarrow> float64 \<Rightarrow> timestamp \<Rightarrow> world \<Rightarrow> error + locals_C \<times> world"
where
  "analyze_calibration_metrics_on citl_bias observed_rate calibration_slope now w0 =
     (let w1 = print (Text ''--- Scenario C: Calibration Analysis ---'') w0;
          w2 = print (Text (''CITL Bias (Given): '' @ py_repr citl_bias)) w1;
          w3 = print (Text (''Observed Rate (O/N): '' @ py_repr observed_rate
                 @ '' (Calculated as 100/1000)'')) w2;
          w4 = print (Text (''Calibration Slope (Given): '' @ py_repr calibration_slope
                 @ [newline])) w3;
          avg = fadd citl_bias observed_rate
      in case DataFrame (interpretation_data citl_bias observed_rate calibration_slope avg) of
           Inl e \<Rightarrow> Inl e
         | Inr frame \<Rightarrow>
             let w5 = print (Text ''--- Final Calculated Result & Interpretation Summary ---'') w4;
                 w6 = print (Markdown frame (Some ''.2f'')) w5;
                 w7 = print (Text (replicate 60 CHR ''-'')) w6;
                 w8 = write_file OUTPUT_FILEPATH_C
                        (metadata_C citl_bias observed_rate now @ to_csv frame None) w7;
                 w9 = print (Text ([newline] @ check_mark
                        @ '' Numerical results and interpretation saved to: ''
                        @ OUTPUT_FILEPATH_C @ '' (Includes metadata header)'')) w8
             in Inr (\<lparr>average_predicted_prob = avg, results_df = frame\<rparr>, w9))"

definition analyze_calibration_metrics :: "timestamp \<Rightarrow> world \<Rightarrow> error + locals_C \<times> world" where
  "analyze_calibration_metrics =
     analyze_calibration_metrics_on CITL_BIAS OBSERVED_RATE CALIBRATION_SLOPE"

text \<open>The interpretation texts of a frame of Scenario C.\<close>

definition interpretation_texts :: "dataframe \<Rightarrow> cell list" where
  "interpretation_texts frame = column frame ''Calculation/Interpretation Logic''"


section \<open>Properties of the rounding\<close>

lemma nearest_unfold: "nearest x = of_int (round_half_even (x / ulp_for x)) * ulp_for x"
  by (simp add: nearest_def Let_def)

lemma round_binary64_unfold:
  "round_binary64 x =
     (if x = 0 then Finite 0
      else if huge \<le> \<bar>nearest x\<bar> then (if x < 0 then NegInf else PosInf)
      else if nearest x = 0 then (if x < 0 then NegZero else Finite 0)
      else Finite (nearest x))"
  by (simp add: round_binary64_def Let_def)

lemma pow2_less_iff: "(2::rat) powi m < 2 powi n \<longleftrightarrow> m < n"
proof
  assume lt: "(2::rat) powi m < 2 powi n"
  show "m < n"
  proof (rule ccontr)
    assume "\<not> m < n"
    then have "n \<le> m"
      by simp
    then have "(2::rat) powi n \<le> 2 powi m"
      by (rule power_int_increasing) simp
    with lt show False
      by simp
  qed
next
  assume "m < n"
  then show "(2::rat) powi m < 2 powi n"
    by (rule power_int_strict_increasing) simp
qed

lemma pow2_le_iff: "(2::rat) powi m \<le> 2 powi n \<longleftrightarrow> m \<le> n"
  using pow2_less_iff [of n m] by (simp add: not_less [symmetric])

lemma pow2_add: "(2::rat) powi (m + n) = 2 powi m * 2 powi n"
  by (simp add: power_int_add)

lemma pow2_diff: "(2::rat) powi (m - n) = 2 powi m / 2 powi n"
  by (simp add: power_int_diff)

lemma ilen_bounds:
  "0 < a \<Longrightarrow> 1 < b \<Longrightarrow> 0 < ilen b a \<and> b ^ nat (ilen b a - 1) \<le> a \<and> a < b ^ nat (ilen b a)"
proof (induction b a rule: ilen.induct)
  case (1 b a)
  have split: "a = b * (a div b) + a mod b"
    by simp
  have md: "0 \<le> a mod b" "a mod b < b"
    using "1.prems" by simp_all
  show ?case
  proof (cases "a div b = 0")
    case True
    then have "ilen b (a div b) = 0"
      by (simp add: ilen.simps)
    then have n: "ilen b a = 1"
      using "1.prems" by (subst ilen.simps) simp
    have "a < b"
      using True split md by simp
    then show ?thesis
      using n "1.prems" by simp
  next
    case False
    have "0 \<le> a div b"
      using "1.prems" by (simp add: pos_imp_zdiv_nonneg_iff)
    then have qpos: "0 < a div b"
      using False by simp
    define n where "n = ilen b (a div b)"
    have ih: "0 < n \<and> b ^ nat (n - 1) \<le> a div b \<and> a div b < b ^ nat n"
      unfolding n_def using "1.IH" "1.prems" qpos by simp
    have n: "ilen b a = n + 1"
      unfolding n_def using "1.prems" by (subst ilen.simps) simp
    have "nat n = Suc (nat (n - 1))"
      using ih by arith
    then have pn: "b ^ nat n = b * b ^ nat (n - 1)"
      by simp
    have "b * b ^ nat (n - 1) \<le> b * (a div b)"
      using ih "1.prems" by (simp add: mult_left_mono)
    then have lo: "b ^ nat n \<le> a"
      using pn split md by linarith
    have "a div b + 1 \<le> b ^ nat n"
      using ih by simp
    then have "b * (a div b + 1) \<le> b * b ^ nat n"
      using "1.prems" by (simp add: mult_left_mono)
    moreover have "b * (a div b + 1) = b * (a div b) + b"
      by (simp add: algebra_simps)
    ultimately have hi: "a < b * b ^ nat n"
      using split md by linarith
    show ?thesis
      using n ih lo hi by (simp add: nat_add_distrib)
  qed
qed

lemma ilog2_bounds:
  assumes "0 < x"
  shows "2 powi (ilog 2 x) \<le> x \<and> x < 2 powi (ilog 2 x + 1)"
proof (cases "1 \<le> x")
  case True
  define a where "a = \<lfloor>x\<rfloor>"
  have apos: "0 < a"
    unfolding a_def using True by simp
  define n where "n = ilen 2 a"
  have b: "0 < n \<and> (2::int) ^ nat (n - 1) \<le> a \<and> a < 2 ^ nat n"
    unfolding n_def using ilen_bounds [of a 2] apos by simp
  have e: "ilog 2 x = n - 1"
    unfolding ilog_def n_def a_def using True by simp
  have "(of_int ((2::int) ^ nat (n - 1)) :: rat) \<le> of_int a"
    using b by (simp only: of_int_le_iff)
  also have "of_int a \<le> x"
    unfolding a_def by simp
  finally have lo: "2 powi (n - 1) \<le> x"
    using b by (simp add: power_int_def)
  have "a + 1 \<le> 2 ^ nat n"
    using b by simp
  then have "(of_int (a + 1) :: rat) \<le> of_int (2 ^ nat n)"
    by (simp only: of_int_le_iff)
  moreover have "x < of_int (a + 1)"
    unfolding a_def by (simp; linarith)
  ultimately have hi: "x < 2 powi n"
    using b by (simp add: power_int_def)
  show ?thesis
    using e lo hi by simp
next
  case False
  define y where "y = 1 / x"
  have y1: "1 < y"
    unfolding y_def using False assms by simp
  define c where "c = \<lceil>y\<rceil> - 1"
  have cpos: "0 < c"
    unfolding c_def using y1 by (simp; linarith)
  define n where "n = ilen 2 c"
  have b: "0 < n \<and> (2::int) ^ nat (n - 1) \<le> c \<and> c < 2 ^ nat n"
    unfolding n_def using ilen_bounds [of c 2] cpos by simp
  have e: "ilog 2 x = - n"
    unfolding ilog_def n_def c_def y_def using False by simp
  have "c + 1 \<le> 2 ^ nat n"
    using b by simp
  then have "(of_int (c + 1) :: rat) \<le> of_int (2 ^ nat n)"
    by (simp only: of_int_le_iff)
  moreover have "y \<le> of_int (c + 1)"
    unfolding c_def by simp
  ultimately have "y \<le> 2 ^ nat n"
    by simp
  then have "1 / 2 ^ nat n \<le> x"
    unfolding y_def using assms by (simp add: field_simps)
  then have lo: "2 powi (- n) \<le> x"
    using b by (simp add: power_int_def field_simps)
  have "(of_int ((2::int) ^ nat (n - 1)) :: rat) \<le> of_int c"
    using b by (simp only: of_int_le_iff)
  then have "(2::rat) ^ nat (n - 1) \<le> of_int c"
    by simp
  moreover have "of_int c < y"
    unfolding c_def by (simp; linarith)
  ultimately have "2 ^ nat (n - 1) < y"
    by linarith
  then have "x < 1 / 2 ^ nat (n - 1)"
    unfolding y_def using assms by (simp add: field_simps)
  moreover have "(2::rat) powi (- n + 1) = 1 / 2 ^ nat (n - 1)"
  proof -
    have "(2::rat) powi (- n + 1) = 2 powi (- (n - 1))"
      by simp
    also have "\<dots> = inverse (2 powi (n - 1))"
      by (rule power_int_minus)
    also have "(2::rat) powi (n - 1) = 2 ^ nat (n - 1)"
      using b by (simp add: power_int_nonneg_exp)
    finally show ?thesis
      by (simp add: inverse_eq_divide)
  qed
  ultimately have hi: "x < 2 powi (- n + 1)"
    by simp
  show ?thesis
    using e lo hi by simp
qed

lemma round_half_even_of_int: "round_half_even (of_int n) = n"
  by (simp add: round_half_even_def)

lemma round_half_even_lower: "of_int a \<le> x \<Longrightarrow> a \<le> round_half_even x"
proof -
  assume "of_int a \<le> x"
  then have "a \<le> \<lfloor>x\<rfloor>"
    by (simp add: le_floor_iff)
  then show ?thesis
    by (simp add: round_half_even_def Let_def)
qed

lemma round_half_even_upper: "x \<le> of_int b \<Longrightarrow> round_half_even x \<le> b"
proof (cases "x = of_int b")
  case True
  then show ?thesis
    by (simp add: round_half_even_of_int)
next
  case False
  assume "x \<le> of_int b"
  with False have "x < of_int b"
    by simp
  then have "\<lfloor>x\<rfloor> < b"
    by (simp add: floor_less_iff)
  then show ?thesis
    by (simp add: round_half_even_def Let_def)
qed

lemma ulp_for_pos: "0 < ulp_for x"
  by (simp add: ulp_for_def)

lemma ulp_for_normal:
  assumes "0 < x" and "- 1022 \<le> ilog 2 x"
  shows "ulp_for x = 2 powi (ilog 2 x - 52)"
  using assms by (simp add: ulp_for_def max_def)

lemma nearest_nonneg:
  assumes "0 \<le> x"
  shows "0 \<le> nearest x"
proof -
  have "0 \<le> x / ulp_for x"
    using assms ulp_for_pos [of x] by simp
  then have "0 \<le> round_half_even (x / ulp_for x)"
    using round_half_even_lower [of 0 "x / ulp_for x"] by simp
  then show ?thesis
    unfolding nearest_unfold using ulp_for_pos [of x] by simp
qed

lemma round_binary64_pos:
  assumes "0 < x"
  shows "round_binary64 x =
    (if huge \<le> nearest x then PosInf else if nearest x = 0 then Finite 0 else Finite (nearest x))"
  using assms nearest_nonneg [of x] by (simp add: round_binary64_unfold abs_of_nonneg)

text \<open>A power of two in the normal range is a lower bound that rounding respects.\<close>

lemma nearest_lower:
  assumes k: "- 1022 \<le> k" and x: "2 powi k \<le> x"
  shows "2 powi k \<le> nearest x"
proof -
  have kpos: "(0::rat) < 2 powi k"
    by simp
  with x have xpos: "0 < x"
    by linarith
  define e where "e = ilog 2 x"
  have b: "2 powi e \<le> x" "x < 2 powi (e + 1)"
    unfolding e_def using ilog2_bounds [OF xpos] by simp_all
  have "(2::rat) powi k < 2 powi (e + 1)"
    using x b(2) by linarith
  then have ke: "k \<le> e"
    by (simp add: pow2_less_iff)
  define u where "u = ulp_for x"
  have u: "u = 2 powi (e - 52)"
    unfolding u_def e_def using ulp_for_normal [OF xpos] ke k by (simp add: e_def)
  have upos: "0 < u"
    unfolding u by simp
  have eu: "2 powi e = 2 ^ 52 * u"
    unfolding u by (simp add: pow2_diff)
  define m where "m = round_half_even (x / u)"
  have "of_int (2 ^ 52) \<le> x / u"
    using b(1) eu upos by (simp add: field_simps)
  then have "2 ^ 52 \<le> m"
    unfolding m_def by (rule round_half_even_lower)
  then have "(of_int (2 ^ 52) :: rat) \<le> of_int m"
    by (simp only: of_int_le_iff)
  then have "2 ^ 52 * u \<le> of_int m * u"
    using upos by simp
  then have er: "2 powi e \<le> of_int m * u"
    using eu by simp
  have "(2::rat) powi k \<le> 2 powi e"
    using ke by (simp add: pow2_le_iff)
  with er have "2 powi k \<le> of_int m * u"
    by linarith
  then show ?thesis
    by (simp add: nearest_unfold m_def u_def)
qed

lemma nearest_upper:
  assumes k: "- 1022 \<le> k" and x: "0 < x" "x \<le> 2 powi k"
  shows "nearest x \<le> 2 powi k"
proof -
  define e where "e = max (ilog 2 x) (- 1022)"
  have "2 powi (ilog 2 x) \<le> x"
    using ilog2_bounds [OF x(1)] by simp
  then have "(2::rat) powi (ilog 2 x) \<le> 2 powi k"
    using x(2) by linarith
  then have "ilog 2 x \<le> k"
    by (simp add: pow2_le_iff)
  then have ek: "e \<le> k"
    unfolding e_def using k by simp
  define u where "u = ulp_for x"
  have u: "u = 2 powi (e - 52)"
    unfolding u_def e_def ulp_for_def using x(1) by simp
  have upos: "0 < u"
    unfolding u by simp
  define m where "m = round_half_even (x / u)"
  define j where "j = nat (k - e + 52)"
  have "(2::rat) powi k = 2 powi (int j) * u"
    unfolding u j_def using ek by (simp add: pow2_add [symmetric])
  then have ku: "(2::rat) powi k = of_int (2 ^ j) * u"
    by simp
  then have "x / u \<le> of_int (2 ^ j)"
    using x(2) upos by (simp add: field_simps)
  then have "m \<le> 2 ^ j"
    unfolding m_def by (rule round_half_even_upper)
  then have "(of_int m :: rat) \<le> of_int (2 ^ j)"
    by (simp only: of_int_le_iff)
  then have "of_int m * u \<le> of_int (2 ^ j) * u"
    using upos by (simp only: mult_le_cancel_right_pos)
  then have "of_int m * u \<le> 2 powi k"
    using ku by simp
  then show ?thesis
    by (simp add: nearest_unfold m_def u_def)
qed

section \<open>Evaluating the model on numerals\<close>

lemma floor_rat_numeral_divide:
  "\<lfloor>numeral a / numeral b :: rat\<rfloor> = numeral a div numeral b"
  by (metis floor_divide_of_int_eq of_int_numeral)

lemma floor_rat_minus_numeral_divide:
  "\<lfloor>- (numeral a / numeral b) :: rat\<rfloor> = - numeral a div numeral b"
  by (metis divide_minus_left floor_divide_of_int_eq of_int_neg_numeral of_int_numeral)

lemma ceiling_rat_numeral_divide:
  "\<lceil>numeral a / numeral b :: rat\<rceil> = - (- numeral a div numeral b)"
  unfolding ceiling_def by (simp add: floor_rat_minus_numeral_divide)

lemma replicate_numeral: "replicate (numeral k) x = x # replicate (pred_numeral k) x"
  by (simp add: numeral_eq_Suc)

lemmas float_eval =
  literal_def round_binary64_def nearest_def ulp_for_def ilog_def ilen.simps
  round_half_even_def huge_def Let_def fadd_def fsub_def fdiv_def fmul_def
  is_nan_def is_inf_def is_zero_def signed_inf_def signed_zero_def
  floor_rat_numeral_divide floor_rat_minus_numeral_divide ceiling_rat_numeral_divide

lemmas text_eval =
  repr_magnitude_def shortest_from.simps strip_zeros.simps reads_back_def repr_layout_def
  digits.simps digit_char_def fixed_digits_def zfill_def str_int_def replicate_numeral

section \<open>What a run of Scenario B returns\<close>

text \<open>
  On three columns of one length the run raises nothing: it returns the frame with its
  seven columns, the reported table with five of them, what it printed and the file.
\<close>

lemma calculate_iptw_weights_on_Inr:
  assumes "length a = length patient_id" and "length g = length patient_id"
  defines "p_a_l \<equiv> conditional_probability a g"
  defines "p_a \<equiv> marginal_probability a"
  defines "raw \<equiv> raw_weights p_a_l"
  defines "stab \<equiv> stabilized_weights p_a p_a_l"
  defines "table \<equiv>
    [(''Patient ID'', map I patient_id), (''A (Treatment)'', map I a),
     (''g (Propensity Score)'', map F g), (''Raw IPTW'', map F raw),
     (''Stabilized IPTW'', map F stab)]"
  shows "calculate_iptw_weights_on patient_id a g now w0 =
    Inr (\<lparr>df = [(''Patient ID'', map I patient_id), (''A (Treatment)'', map I a),
               (''g (Propensity Score)'', map F g), (''P(A|L)'', map F p_a_l),
               (''Raw IPTW'', map F raw), (''P(A)'', map F p_a),
               (''Stabilized IPTW'', map F stab)],
          results_table = table, sum_siptw = series_sum stab\<rparr>,
         w0\<lparr>stdout := stdout w0 @
              [Text ''--- Scenario B: Initial Data ---'',
               Markdown [(''Patient ID'', map I patient_id), (''A (Treatment)'', map I a),
                         (''g (Propensity Score)'', map F g)] None,
               Text (''Assumption: Marginal P(A=1) = '' @ py_repr P_A1),
               Text (replicate 60 CHR ''-''),
               Text ''--- IPTW and SIPTW Results per Patient ---'',
               Markdown table (Some ''.4f''),
               Text (replicate 60 CHR ''-''),
               Text (check_mark @ '' Final Sum of Stabilized Weights (Cohort Sum of SIPTW): ''
                     @ format_fixed 4 (series_sum stab)),
               Text (replicate 60 CHR ''-''),
               Text ([newline] @ check_mark @ '' Numerical results successfully saved to: ''
                     @ OUTPUT_FILEPATH_B @ '' (Includes metadata header)'')],
            disk := (disk w0)(OUTPUT_FILEPATH_B \<mapsto> metadata_B now @ to_csv table (Some 4))\<rparr>)"
  using assms(1,2)
  unfolding calculate_iptw_weights_on_def p_a_l_def p_a_def raw_def stab_def table_def
  by (simp add: DataFrame_def assign_def select_def print_def write_file_def Let_def)

section \<open>The columns of Scenario B, row by row\<close>

lemma nth_np_where:
  assumes "i < length c" and "length xs = length c" and "length ys = length c"
  shows "np_where c xs ys ! i = (if c ! i then xs ! i else ys ! i)"
  using assms by (simp add: np_where_def)

lemma length_np_where:
  assumes "length xs = length c" and "length ys = length c"
  shows "length (np_where c xs ys) = length c"
  using assms by (simp add: np_where_def)

lemma length_conditional_probability:
  "length g = length a \<Longrightarrow> length (conditional_probability a g) = length a"
  by (simp add: conditional_probability_def length_np_where)

lemma nth_conditional_probability:
  assumes "length g = length a" and "i < length a"
  shows "conditional_probability a g ! i = (if a ! i = 1 then g ! i else fsub (Finite 1) (g ! i))"
  using assms by (simp add: conditional_probability_def nth_np_where)

lemma P_A1_value: "P_A1 = Finite (1 / 2)"
  by (simp add: P_A1_def float_eval split del: if_split)

lemma half_minus: "fsub (Finite 1) (Finite (1 / 2)) = Finite (1 / 2)"
  by (simp add: float_eval split del: if_split)

lemma length_marginal_probability: "length (marginal_probability a) = length a"
  by (simp add: marginal_probability_def length_np_where)

lemma nth_marginal_probability:
  assumes "i < length a"
  shows "marginal_probability a ! i = Finite (1 / 2)"
  using assms by (simp add: marginal_probability_def nth_np_where half_minus P_A1_value)


lemma nth_stabilized_weights:
  assumes "i < length p" and "length m = length p"
  shows "stabilized_weights m p ! i = fdiv (m ! i) (p ! i)"
  using assms by (simp add: stabilized_weights_def)

lemma column_simps:
  "column ((n, c) # rest) name = (if n = name then c else column rest name)"
  "column [] name = []"
  by (simp_all add: column_def)


text \<open>
  Bounds that survive the rounding: a difference \<open>1 - q\<close> stays within the unit
  interval, and half over a probability stays positive.
\<close>

lemma fdiv_finite:
  assumes "c \<noteq> 0" and "n \<noteq> 0"
  shows "fdiv (Finite n) (Finite c) = round_binary64 (n / c)"
  using assms by (simp add: fdiv_def is_nan_def is_inf_def is_zero_def)

lemma fsub_one_finite:
  assumes "0 < q" and "q < 1"
  shows "\<exists>c. fsub (Finite 1) (Finite q) = Finite c \<and> 0 \<le> c \<and> c \<le> 1"
proof -
  define x where "x = 1 - q"
  have x: "0 < x" "x \<le> 2 powi 0"
    using assms by (simp_all add: x_def)
  have "fsub (Finite 1) (Finite q) = round_binary64 x"
    using assms by (simp add: fsub_def fadd_def is_nan_def is_inf_def x_def)
  moreover have "nearest x \<le> 1"
    using nearest_upper [of 0 x] x by simp
  moreover have "0 \<le> nearest x"
    using nearest_nonneg [of x] x by simp
  moreover have "(1::rat) < huge"
    by (simp add: huge_def)
  ultimately show ?thesis
    using round_binary64_pos [OF x(1)] by auto
qed

lemma fdiv_half_positive:
  assumes "0 \<le> c" and "c \<le> 1"
  shows "positive (fdiv (Finite (1 / 2)) (Finite c))"
proof (cases "c = 0")
  case True
  then show ?thesis
    by (simp add: fdiv_def is_nan_def is_inf_def is_zero_def signed_inf_def)
next
  case False
  define x where "x = 1 / 2 / c"
  have cpos: "0 < c"
    using False assms by simp
  have "1 / 2 \<le> x"
    using cpos assms(2) by (simp add: x_def field_simps)
  then have lo: "2 powi (- 1) \<le> x"
    by (simp add: power_int_minus)
  then have "2 powi (- 1) \<le> nearest x"
    by (intro nearest_lower) simp_all
  then have n: "0 < nearest x"
    by (simp add: power_int_minus)
  have xpos: "0 < x"
    using cpos by (simp add: x_def)
  have "fdiv (Finite (1 / 2)) (Finite c) = round_binary64 x"
    using False by (simp add: fdiv_finite x_def)
  then show ?thesis
    using round_binary64_pos [OF xpos] n by simp
qed

section \<open>The literals and the cohort of the source, evaluated\<close>

lemma literal_08: "literal (8 / 10) = Finite (3602879701896397 / 4503599627370496)"
  by (simp add: float_eval split del: if_split)

lemma literal_04: "literal (4 / 10) = Finite (3602879701896397 / 9007199254740992)"
  by (simp add: float_eval split del: if_split)

lemma literal_09: "literal (9 / 10) = Finite (8106479329266893 / 9007199254740992)"
  by (simp add: float_eval split del: if_split)

lemma literal_02: "literal (2 / 10) = Finite (3602879701896397 / 18014398509481984)"
  by (simp add: float_eval split del: if_split)

lemma literal_01: "literal (1 / 10) = Finite (3602879701896397 / 36028797018963968)"
  by (simp add: float_eval split del: if_split)

lemma CITL_BIAS_value: "CITL_BIAS = Finite (- (3602879701896397 / 36028797018963968))"
  by (simp add: CITL_BIAS_def float_eval split del: if_split)

lemma OBSERVED_RATE_value: "OBSERVED_RATE = Finite (3602879701896397 / 36028797018963968)"
  by (simp add: OBSERVED_RATE_def float_eval split del: if_split)

lemma CALIBRATION_SLOPE_value: "CALIBRATION_SLOPE = Finite (3152519739159347 / 4503599627370496)"
  by (simp add: CALIBRATION_SLOPE_def float_eval split del: if_split)

lemma cohort_conditional_probability:
  "conditional_probability [1, 1, 0, 0]
     [literal (8 / 10), literal (4 / 10), literal (9 / 10), literal (2 / 10)] =
   [Finite (3602879701896397 / 4503599627370496), Finite (3602879701896397 / 9007199254740992),
    Finite (900719925474099 / 9007199254740992), Finite (3602879701896397 / 4503599627370496)]"
  unfolding literal_08 literal_04 literal_09 literal_02
  by (simp add: conditional_probability_def np_where_def float_eval split del: if_split)

lemma cohort_raw_weights:
  "raw_weights
     [Finite (3602879701896397 / 4503599627370496), Finite (3602879701896397 / 9007199254740992),
      Finite (900719925474099 / 9007199254740992), Finite (3602879701896397 / 4503599627370496)] =
   [Finite (5 / 4), Finite (5 / 2), Finite (5629499534213121 / 562949953421312), Finite (5 / 4)]"
  by (simp add: raw_weights_def float_eval split del: if_split)

lemma cohort_marginal_probability:
  "marginal_probability [1, 1, 0, 0] =
   [Finite (1 / 2), Finite (1 / 2), Finite (1 / 2), Finite (1 / 2)]"
  by (simp add: marginal_probability_def np_where_def P_A1_value half_minus)

lemma cohort_stabilized_weights:
  "stabilized_weights [Finite (1 / 2), Finite (1 / 2), Finite (1 / 2), Finite (1 / 2)]
     [Finite (3602879701896397 / 4503599627370496), Finite (3602879701896397 / 9007199254740992),
      Finite (900719925474099 / 9007199254740992), Finite (3602879701896397 / 4503599627370496)] =
   [Finite (5 / 8), Finite (5 / 4), Finite (5629499534213121 / 1125899906842624), Finite (5 / 8)]"
  by (simp add: stabilized_weights_def float_eval split del: if_split)

lemma cohort_sum:
  "series_sum
     [Finite (5 / 8), Finite (5 / 4), Finite (5629499534213121 / 1125899906842624), Finite (5 / 8)] =
   Finite (8444249301319681 / 1125899906842624)"
  by (simp add: series_sum_def pairwise_sum.simps [of "[a, b, c, d]" for a b c d] float_eval
      split del: if_split)

lemma repr_half: "py_repr (Finite (1 / 2)) = ''0.5''"
  by (simp add: float_eval text_eval split del: if_split)

lemma repr_CITL_BIAS: "py_repr (Finite (- (3602879701896397 / 36028797018963968))) = ''-0.1''"
  by (simp add: float_eval text_eval split del: if_split)

lemma repr_OBSERVED_RATE: "py_repr (Finite (3602879701896397 / 36028797018963968)) = ''0.1''"
  by (simp add: float_eval text_eval split del: if_split)

lemma repr_CALIBRATION_SLOPE: "py_repr (Finite (3152519739159347 / 4503599627370496)) = ''0.7''"
  by (simp add: float_eval text_eval split del: if_split)

lemma cohort_csv:
  "to_csv
     [(''Patient ID'', map I [1, 2, 3, 4]), (''A (Treatment)'', map I [1, 1, 0, 0]),
      (''g (Propensity Score)'',
         map F [Finite (3602879701896397 / 4503599627370496),
                Finite (3602879701896397 / 9007199254740992),
                Finite (8106479329266893 / 9007199254740992),
                Finite (3602879701896397 / 18014398509481984)]),
      (''Raw IPTW'',
         map F [Finite (5 / 4), Finite (5 / 2),
                Finite (5629499534213121 / 562949953421312), Finite (5 / 4)]),
      (''Stabilized IPTW'',
         map F [Finite (5 / 8), Finite (5 / 4),
                Finite (5629499534213121 / 1125899906842624), Finite (5 / 8)])]
     (Some 4) =
   ''Patient ID,A (Treatment),g (Propensity Score),Raw IPTW,Stabilized IPTW'' @ [newline]
   @ ''1,1,0.8000,1.2500,0.6250'' @ [newline]
   @ ''2,1,0.4000,2.5000,1.2500'' @ [newline]
   @ ''3,0,0.9000,10.0000,5.0000'' @ [newline]
   @ ''4,0,0.2000,1.2500,0.6250'' @ [newline]"
  by (simp add: to_csv_def csv_row_def csv_field_def csv_cell_def is_nan_def dquote_def
      newline_def round_half_even_def Let_def floor_rat_numeral_divide text_eval
      split del: if_split)

text \<open>From eight values on the order of the additions is not left to right.\<close>

lemma series_sum_eight:
  "series_sum [Finite (2 ^ 53), Finite 1, Finite 1, Finite 1, Finite 1, Finite 1, Finite 1, Finite 1]
   = Finite (2 ^ 53 + 6)"
  by (simp add: series_sum_def pairwise_sum.simps [of "a # b" for a b] block_sum_def
      accumulate.simps [of _ "[]"] float_eval split del: if_split)

text \<open>
  The run of the program at any clock reading: the frame, the reported table, the sum,
  what is printed and the file, with the time stamp as the only part left open.
\<close>

lemma cohort_run:
  "calculate_iptw_weights now w0 =
    Inr (\<lparr>df = [(''Patient ID'', [I 1, I 2, I 3, I 4]), (''A (Treatment)'', [I 1, I 1, I 0, I 0]),
               (''g (Propensity Score)'',
                  [F (Finite (3602879701896397 / 4503599627370496)),
                   F (Finite (3602879701896397 / 9007199254740992)),
                   F (Finite (8106479329266893 / 9007199254740992)),
                   F (Finite (3602879701896397 / 18014398509481984))]),
               (''P(A|L)'',
                  [F (Finite (3602879701896397 / 4503599627370496)),
                   F (Finite (3602879701896397 / 9007199254740992)),
                   F (Finite (900719925474099 / 9007199254740992)),
                   F (Finite (3602879701896397 / 4503599627370496))]),
               (''Raw IPTW'',
                  [F (Finite (5 / 4)), F (Finite (5 / 2)),
                   F (Finite (5629499534213121 / 562949953421312)), F (Finite (5 / 4))]),
               (''P(A)'',
                  [F (Finite (1 / 2)), F (Finite (1 / 2)), F (Finite (1 / 2)), F (Finite (1 / 2))]),
               (''Stabilized IPTW'',
                  [F (Finite (5 / 8)), F (Finite (5 / 4)),
                   F (Finite (5629499534213121 / 1125899906842624)), F (Finite (5 / 8))])],
          results_table =
              [(''Patient ID'', [I 1, I 2, I 3, I 4]), (''A (Treatment)'', [I 1, I 1, I 0, I 0]),
               (''g (Propensity Score)'',
                  [F (Finite (3602879701896397 / 4503599627370496)),
                   F (Finite (3602879701896397 / 9007199254740992)),
                   F (Finite (8106479329266893 / 9007199254740992)),
                   F (Finite (3602879701896397 / 18014398509481984))]),
               (''Raw IPTW'',
                  [F (Finite (5 / 4)), F (Finite (5 / 2)),
                   F (Finite (5629499534213121 / 562949953421312)), F (Finite (5 / 4))]),
               (''Stabilized IPTW'',
                  [F (Finite (5 / 8)), F (Finite (5 / 4)),
                   F (Finite (5629499534213121 / 1125899906842624)), F (Finite (5 / 8))])],
          sum_siptw = Finite (8444249301319681 / 1125899906842624)\<rparr>,
         w0\<lparr>stdout := stdout w0 @
              [Text ''--- Scenario B: Initial Data ---'',
               Markdown
                 [(''Patient ID'', [I 1, I 2, I 3, I 4]), (''A (Treatment)'', [I 1, I 1, I 0, I 0]),
                  (''g (Propensity Score)'',
                     [F (Finite (3602879701896397 / 4503599627370496)),
                      F (Finite (3602879701896397 / 9007199254740992)),
                      F (Finite (8106479329266893 / 9007199254740992)),
                      F (Finite (3602879701896397 / 18014398509481984))])] None,
               Text ''Assumption: Marginal P(A=1) = 0.5'',
               Text ''------------------------------------------------------------'',
               Text ''--- IPTW and SIPTW Results per Patient ---'',
               Markdown
                 [(''Patient ID'', [I 1, I 2, I 3, I 4]), (''A (Treatment)'', [I 1, I 1, I 0, I 0]),
                  (''g (Propensity Score)'',
                     [F (Finite (3602879701896397 / 4503599627370496)),
                      F (Finite (3602879701896397 / 9007199254740992)),
                      F (Finite (8106479329266893 / 9007199254740992)),
                      F (Finite (3602879701896397 / 18014398509481984))]),
                  (''Raw IPTW'',
                     [F (Finite (5 / 4)), F (Finite (5 / 2)),
                      F (Finite (5629499534213121 / 562949953421312)), F (Finite (5 / 4))]),
                  (''Stabilized IPTW'',
                     [F (Finite (5 / 8)), F (Finite (5 / 4)),
                      F (Finite (5629499534213121 / 1125899906842624)), F (Finite (5 / 8))])]
                 (Some ''.4f''),
               Text ''------------------------------------------------------------'',
               Text (check_mark
                     @ '' Final Sum of Stabilized Weights (Cohort Sum of SIPTW): 7.5000''),
               Text ''------------------------------------------------------------'',
               Text ([newline] @ check_mark
                     @ '' Numerical results successfully saved to: data/scenario_B_results.csv (Includes metadata header)'')],
            disk := (disk w0)(''data/scenario_B_results.csv'' \<mapsto>
              ''# Results for Scenario B: IPTW and Stabilized IPTW Calculation'' @ [newline]
              @ ''# ------------------------------------------------------------------'' @ [newline]
              @ ''# Task: Calculate Raw IPTW, Stabilized IPTW, and the Sum of SIPTW.'' @ [newline]
              @ ''# ASSUMPTION: Marginal Probability P(A=1) = 0.5'' @ [newline]
              @ ''# Columns: Raw IPTW and Stabilized IPTW per patient.'' @ [newline]
              @ ''# Date Generated: '' @ strftime now @ [newline]
              @ ''# ------------------------------------------------------------------'' @ [newline]
              @ ''Patient ID,A (Treatment),g (Propensity Score),Raw IPTW,Stabilized IPTW''
              @ [newline]
              @ ''1,1,0.8000,1.2500,0.6250'' @ [newline]
              @ ''2,1,0.4000,2.5000,1.2500'' @ [newline]
              @ ''3,0,0.9000,10.0000,5.0000'' @ [newline]
              @ ''4,0,0.2000,1.2500,0.6250'' @ [newline])\<rparr>)"
proof -
  have l: "length [1, 1, 0, 0 :: int] = length [1, 2, 3, 4 :: int]"
    "length [literal (8 / 10), literal (4 / 10), literal (9 / 10), literal (2 / 10)]
      = length [1, 2, 3, 4 :: int]"
    by simp_all
  have total: "format_fixed 4 (Finite (8444249301319681 / 1125899906842624)) = ''7.5000''"
    by (simp add: round_half_even_def Let_def floor_rat_numeral_divide text_eval
        split del: if_split)
  have sixty: "replicate 60 CHR ''-''
      = ''------------------------------------------------------------''"
    by (simp add: replicate_numeral)
  have csv: "to_csv
     [(''Patient ID'', map I [1, 2, 3, 4]), (''A (Treatment)'', map I [1, 1, 0, 0]),
      (''g (Propensity Score)'',
         map F [literal (8 / 10), literal (4 / 10), literal (9 / 10), literal (2 / 10)]),
      (''Raw IPTW'',
         map F [Finite (5 / 4), Finite (5 / 2),
                Finite (5629499534213121 / 562949953421312), Finite (5 / 4)]),
      (''Stabilized IPTW'',
         map F [Finite (5 / 8), Finite (5 / 4),
                Finite (5629499534213121 / 1125899906842624), Finite (5 / 8)])]
     (Some 4) =
   ''Patient ID,A (Treatment),g (Propensity Score),Raw IPTW,Stabilized IPTW'' @ [newline]
   @ ''1,1,0.8000,1.2500,0.6250'' @ [newline]
   @ ''2,1,0.4000,2.5000,1.2500'' @ [newline]
   @ ''3,0,0.9000,10.0000,5.0000'' @ [newline]
   @ ''4,0,0.2000,1.2500,0.6250'' @ [newline]"
    unfolding literal_08 literal_04 literal_09 literal_02 by (rule cohort_csv)
  show ?thesis
    unfolding calculate_iptw_weights_def calculate_iptw_weights_on_Inr [OF l]
      cohort_conditional_probability cohort_raw_weights cohort_marginal_probability
      cohort_stabilized_weights cohort_sum csv total sixty metadata_B_def P_A1_value repr_half
      OUTPUT_FILEPATH_B_def
    unfolding literal_08 literal_04 literal_09 literal_02
    by simp
qed

text \<open>The characters of a number written in decimal.\<close>

lemma digit_char_is_digit: "d < 10 \<Longrightarrow> digit_char d \<in> set ''0123456789''"
proof -
  assume "d < 10"
  then have "nat d < length ''0123456789''"
    by simp
  then show ?thesis
    unfolding digit_char_def by (rule nth_mem)
qed

lemma digits_are_digits: "set (digits n) \<subseteq> set ''0123456789''"
proof (induction n rule: digits.induct)
  case (1 n)
  show ?case
  proof (cases "n < 10")
    case True
    then show ?thesis
      using digit_char_is_digit [of n] by (subst digits.simps) simp
  next
    case False
    have "n mod 10 < 10"
      by simp
    then have "digit_char (n mod 10) \<in> set ''0123456789''"
      by (rule digit_char_is_digit)
    then show ?thesis
      using False "1.IH" by (subst digits.simps) simp
  qed
qed

section \<open>The claims\<close>

text \<open>
  C8. In Scenario B, a row whose propensity score lies strictly between 0 and 1 gets a
  stabilized weight that is strictly positive, whatever its treatment indicator (a
  quotient that overflows to \<open>+inf\<close> counts as positive). The sum of the stabilized
  weights is only reported: on any table whose columns have one length the run returns
  normally, keeps what \<^verbatim>\<open>Series.sum()\<close> gives in \<open>sum_siptw\<close> and prints it to four
  decimals; nothing compares it with a target. On the table of the program the sum is
  \<open>7.5 + 2 ^ -50\<close>, printed as \<^verbatim>\<open>7.5000\<close>.
\<close>

theorem C8_stabilized_weight_positive:
  assumes "length a = length patient_id" and "length g = length patient_id"
    and "i < length patient_id" and "g ! i = Finite q" and "0 < q" and "q < 1"
  shows "\<not> isl (calculate_iptw_weights_on patient_id a g now w0)
    \<and> column (results_table (fst (projr (calculate_iptw_weights_on patient_id a g now w0))))
          ''Stabilized IPTW''
        = map F (stabilized_weights (marginal_probability a) (conditional_probability a g))
    \<and> positive (stabilized_weights (marginal_probability a) (conditional_probability a g) ! i)
    \<and> sum_siptw (fst (projr (calculate_iptw_weights_on patient_id a g now w0)))
        = series_sum (stabilized_weights (marginal_probability a) (conditional_probability a g))
    \<and> Text (check_mark @ '' Final Sum of Stabilized Weights (Cohort Sum of SIPTW): ''
              @ format_fixed 4 (series_sum
                  (stabilized_weights (marginal_probability a) (conditional_probability a g))))
        \<in> set (stdout (snd (projr (calculate_iptw_weights_on patient_id a g now w0))))
    \<and> sum_siptw (fst (projr (calculate_iptw_weights now w0))) = Finite (75 / 10 + 1 / 2 ^ 50)
    \<and> Text (check_mark @ '' Final Sum of Stabilized Weights (Cohort Sum of SIPTW): 7.5000'')
        \<in> set (stdout (snd (projr (calculate_iptw_weights now w0))))"
proof -
  note run = calculate_iptw_weights_on_Inr [OF assms(1) assms(2), of now w0]
  have la: "length g = length a" "i < length a"
    using assms(1,2,3) by simp_all
  have lc: "i < length (conditional_probability a g)"
    using la by (simp add: length_conditional_probability)
  have m: "marginal_probability a ! i = Finite (1 / 2)"
    using la by (simp add: nth_marginal_probability)
  have "\<exists>c. conditional_probability a g ! i = Finite c \<and> 0 \<le> c \<and> c \<le> 1"
  proof (cases "a ! i = 1")
    case True
    then show ?thesis
      using la assms(4,5,6) by (simp add: nth_conditional_probability)
  next
    case False
    then show ?thesis
      using la assms(4) fsub_one_finite [OF assms(5) assms(6)]
      by (simp add: nth_conditional_probability)
  qed
  then obtain c where c: "conditional_probability a g ! i = Finite c" "0 \<le> c" "c \<le> 1"
    by blast
  have "stabilized_weights (marginal_probability a) (conditional_probability a g) ! i
      = fdiv (Finite (1 / 2)) (Finite c)"
    using lc la m c(1)
    by (simp add: nth_stabilized_weights length_marginal_probability length_conditional_probability)
  then have pos: "positive (stabilized_weights (marginal_probability a) (conditional_probability a g) ! i)"
    using fdiv_half_positive [OF c(2) c(3)] by simp
  have general: "\<not> isl (calculate_iptw_weights_on patient_id a g now w0)
    \<and> column (results_table (fst (projr (calculate_iptw_weights_on patient_id a g now w0))))
          ''Stabilized IPTW''
        = map F (stabilized_weights (marginal_probability a) (conditional_probability a g))
    \<and> positive (stabilized_weights (marginal_probability a) (conditional_probability a g) ! i)
    \<and> sum_siptw (fst (projr (calculate_iptw_weights_on patient_id a g now w0)))
        = series_sum (stabilized_weights (marginal_probability a) (conditional_probability a g))
    \<and> Text (check_mark @ '' Final Sum of Stabilized Weights (Cohort Sum of SIPTW): ''
              @ format_fixed 4 (series_sum
                  (stabilized_weights (marginal_probability a) (conditional_probability a g))))
        \<in> set (stdout (snd (projr (calculate_iptw_weights_on patient_id a g now w0))))"
    using pos unfolding run by (simp add: column_simps)
  have v: "(75 / 10 + 1 / 2 ^ 50 :: rat) = 8444249301319681 / 1125899906842624"
    by simp
  have program: "sum_siptw (fst (projr (calculate_iptw_weights now w0)))
        = Finite (75 / 10 + 1 / 2 ^ 50)
    \<and> Text (check_mark @ '' Final Sum of Stabilized Weights (Cohort Sum of SIPTW): 7.5000'')
        \<in> set (stdout (snd (projr (calculate_iptw_weights now w0))))"
    unfolding cohort_run v by simp
  show ?thesis
    using general program by blast
qed

text \<open>The theorem at the third row of the cohort of the source (\<open>A = 0\<close>, \<open>g = 0.9\<close>).\<close>

theorem C8_stabilized_weight_positive_witness:
  "length [1, 1, 0, 0 :: int] = length [1, 2, 3, 4 :: int]
   \<and> length [literal (8 / 10), literal (4 / 10), literal (9 / 10), literal (2 / 10)]
       = length [1, 2, 3, 4 :: int]
   \<and> (2 :: nat) < length [1, 2, 3, 4 :: int]
   \<and> [literal (8 / 10), literal (4 / 10), literal (9 / 10), literal (2 / 10)] ! 2
       = Finite (8106479329266893 / 9007199254740992)
   \<and> (0 :: rat) < 8106479329266893 / 9007199254740992
   \<and> (8106479329266893 / 9007199254740992 :: rat) < 1
   \<and> positive (stabilized_weights (marginal_probability [1, 1, 0, 0])
         (conditional_probability [1, 1, 0, 0]
            [literal (8 / 10), literal (4 / 10), literal (9 / 10), literal (2 / 10)]) ! 2)
   \<and> \<not> isl (calculate_iptw_weights_on [1, 2, 3, 4] [1, 1, 0, 0]
         [literal (8 / 10), literal (4 / 10), literal (9 / 10), literal (2 / 10)]
         \<lparr>year = 2025, month = 11, day = 3, hour = 9, minute = 5, second = 0\<rparr> empty_world)"
proof -
  have g: "[literal (8 / 10), literal (4 / 10), literal (9 / 10), literal (2 / 10)] ! 2
      = Finite (8106479329266893 / 9007199254740992)"
    by (simp add: literal_09)
  show ?thesis
    using g C8_stabilized_weight_positive [of "[1, 1, 0, 0]" "[1, 2, 3, 4]"
        "[literal (8 / 10), literal (4 / 10), literal (9 / 10), literal (2 / 10)]" 2
        "8106479329266893 / 9007199254740992"
        "\<lparr>year = 2025, month = 11, day = 3, hour = 9, minute = 5, second = 0\<rparr>" empty_world]
    by simp
qed













lemma marginal_probability_constant:
  "marginal_probability a = replicate (length a) (Finite (1 / 2))"
  by (intro nth_equalityI) (simp_all add: length_marginal_probability nth_marginal_probability)

text \<open>
  C9. The constant \<open>P_A1\<close> of the source is \<open>0.5\<close>, one half, so the marginal
  probability computed for a column of treatment indicators is one half on every row,
  whatever the indicators are; that is the column \<open>P(A)\<close> of the frame of the program.
  On each of the four rows of the program the raw weight is a finite number and the
  stabilized weight is exactly half of it.
\<close>

theorem C9_marginal_is_half:
  "P_A1 = literal (5 / 10) \<and> P_A1 = Finite (1 / 2)
   \<and> marginal_probability a = replicate (length a) (Finite (1 / 2))
   \<and> \<not> isl (calculate_iptw_weights now w0)
   \<and> column (df (fst (projr (calculate_iptw_weights now w0)))) ''A (Treatment)''
     = [I 1, I 1, I 0, I 0]
   \<and> column (df (fst (projr (calculate_iptw_weights now w0)))) ''P(A)''
     = [F (Finite (1 / 2)), F (Finite (1 / 2)), F (Finite (1 / 2)), F (Finite (1 / 2))]
   \<and> column (df (fst (projr (calculate_iptw_weights now w0)))) ''Raw IPTW''
     = map (\<lambda>r. F (Finite r)) [5 / 4, 5 / 2, 5629499534213121 / 562949953421312, 5 / 4]
   \<and> column (df (fst (projr (calculate_iptw_weights now w0)))) ''Stabilized IPTW''
     = map (\<lambda>r. F (Finite (r / 2))) [5 / 4, 5 / 2, 5629499534213121 / 562949953421312, 5 / 4]"
proof -
  have program: "\<not> isl (calculate_iptw_weights now w0)
   \<and> column (df (fst (projr (calculate_iptw_weights now w0)))) ''A (Treatment)''
     = [I 1, I 1, I 0, I 0]
   \<and> column (df (fst (projr (calculate_iptw_weights now w0)))) ''P(A)''
     = [F (Finite (1 / 2)), F (Finite (1 / 2)), F (Finite (1 / 2)), F (Finite (1 / 2))]
   \<and> column (df (fst (projr (calculate_iptw_weights now w0)))) ''Raw IPTW''
     = map (\<lambda>r. F (Finite r)) [5 / 4, 5 / 2, 5629499534213121 / 562949953421312, 5 / 4]
   \<and> column (df (fst (projr (calculate_iptw_weights now w0)))) ''Stabilized IPTW''
     = map (\<lambda>r. F (Finite (r / 2))) [5 / 4, 5 / 2, 5629499534213121 / 562949953421312, 5 / 4]"
    unfolding cohort_run by (simp add: column_simps)
  show ?thesis
    using P_A1_def P_A1_value marginal_probability_constant [of a] program by blast
qed

lemma repr_row3:
  "py_repr (Finite (900719925474099 / 9007199254740992)) = ''0.09999999999999998''"
  "py_repr (Finite (5629499534213121 / 562949953421312)) = ''10.000000000000002''"
  "py_repr (Finite (5629499534213121 / 1125899906842624)) = ''5.000000000000001''"
  "py_repr (Finite (8444249301319681 / 1125899906842624)) = ''7.500000000000001''"
  by (simp_all add: float_eval text_eval split del: if_split cong: let_weak_cong)

lemma literal_exact:
  "literal (125 / 100) = Finite (5 / 4)" "literal (25 / 10) = Finite (5 / 2)"
  "literal (625 / 1000) = Finite (5 / 8)" "literal 10 = Finite 10" "literal 5 = Finite 5"
  "literal (75 / 10) = Finite (15 / 2)"
  by (simp_all add: float_eval split del: if_split)

lemma format_cohort:
  "map (format_fixed 4)
     [Finite (3602879701896397 / 4503599627370496), Finite (3602879701896397 / 9007199254740992),
      Finite (900719925474099 / 9007199254740992), Finite (3602879701896397 / 4503599627370496)]
   = [''0.8000'', ''0.4000'', ''0.1000'', ''0.8000'']"
  "map (format_fixed 4)
     [Finite (5 / 4), Finite (5 / 2), Finite (5629499534213121 / 562949953421312), Finite (5 / 4)]
   = [''1.2500'', ''2.5000'', ''10.0000'', ''1.2500'']"
  "map (format_fixed 4)
     [Finite (5 / 8), Finite (5 / 4), Finite (5629499534213121 / 1125899906842624), Finite (5 / 8)]
   = [''0.6250'', ''1.2500'', ''5.0000'', ''0.6250'']"
  "format_fixed 4 (Finite (8444249301319681 / 1125899906842624)) = ''7.5000''"
  by (simp_all add: round_half_even_def Let_def floor_rat_numeral_divide text_eval
      split del: if_split)

lemma literal_row3:
  "literal (9999999999999998 / 10 ^ 17) = Finite (900719925474099 / 9007199254740992)"
  "literal (10000000000000002 / 10 ^ 15) = Finite (5629499534213121 / 562949953421312)"
  "literal (5000000000000001 / 10 ^ 15) = Finite (5629499534213121 / 1125899906842624)"
  "literal (7500000000000001 / 10 ^ 15) = Finite (8444249301319681 / 1125899906842624)"
  by (simp_all add: float_eval split del: if_split)

text \<open>
  C2, as the code has it. For the four-row cohort of the source the conditional
  probabilities, raw weights and stabilized weights of rows 1, 2 and 4 are the binary64
  values of 0.8, 0.4, 0.8; 1.25, 2.5, 1.25; 0.625, 1.25, 0.625. Row 3, whose conditional
  probability is computed as \<open>1 - 0.9\<close>, carries the rounding of that subtraction: its
  conditional probability is the binary64 value \<open>0.09999999999999998\<close>, its raw weight
  \<open>10.000000000000002\<close> (which is \<open>10 + 2 ^ -49\<close>), its stabilized weight
  \<open>5.000000000000001\<close> (\<open>5 + 2 ^ -50\<close>), and the sum of the stabilized weights is
  \<open>7.500000000000001\<close> (\<open>7.5 + 2 ^ -50\<close>). Rounded to four decimals the values read
  0.8000, 0.4000, 0.1000, 0.8000; 1.2500, 2.5000, 10.0000, 1.2500; 0.6250, 1.2500, 5.0000,
  0.6250; and 7.5000.
\<close>

theorem C2_cohort_values:
  "column (df (fst (projr (calculate_iptw_weights now w0)))) ''P(A|L)''
     = [F (literal (8 / 10)), F (literal (4 / 10)),
        F (Finite (900719925474099 / 9007199254740992)), F (literal (8 / 10))]
   \<and> column (df (fst (projr (calculate_iptw_weights now w0)))) ''Raw IPTW''
     = [F (literal (125 / 100)), F (literal (25 / 10)),
        F (Finite (10 + 1 / 2 ^ 49)), F (literal (125 / 100))]
   \<and> column (df (fst (projr (calculate_iptw_weights now w0)))) ''Stabilized IPTW''
     = [F (literal (625 / 1000)), F (literal (125 / 100)),
        F (Finite (5 + 1 / 2 ^ 50)), F (literal (625 / 1000))]
   \<and> sum_siptw (fst (projr (calculate_iptw_weights now w0))) = Finite (75 / 10 + 1 / 2 ^ 50)
   \<and> map (format_fixed 4)
        [literal (8 / 10), literal (4 / 10), Finite (900719925474099 / 9007199254740992),
         literal (8 / 10)]
     = [''0.8000'', ''0.4000'', ''0.1000'', ''0.8000'']
   \<and> map (format_fixed 4)
        [literal (125 / 100), literal (25 / 10), Finite (10 + 1 / 2 ^ 49), literal (125 / 100)]
     = [''1.2500'', ''2.5000'', ''10.0000'', ''1.2500'']
   \<and> map (format_fixed 4)
        [literal (625 / 1000), literal (125 / 100), Finite (5 + 1 / 2 ^ 50), literal (625 / 1000)]
     = [''0.6250'', ''1.2500'', ''5.0000'', ''0.6250'']
   \<and> format_fixed 4 (Finite (75 / 10 + 1 / 2 ^ 50)) = ''7.5000''
   \<and> py_repr (Finite (900719925474099 / 9007199254740992)) = ''0.09999999999999998''
   \<and> py_repr (Finite (10 + 1 / 2 ^ 49)) = ''10.000000000000002''
   \<and> py_repr (Finite (5 + 1 / 2 ^ 50)) = ''5.000000000000001''
   \<and> py_repr (Finite (75 / 10 + 1 / 2 ^ 50)) = ''7.500000000000001''
   \<and> Finite (900719925474099 / 9007199254740992) = literal (9999999999999998 / 10 ^ 17)
   \<and> Finite (10 + 1 / 2 ^ 49) = literal (10000000000000002 / 10 ^ 15)
   \<and> Finite (5 + 1 / 2 ^ 50) = literal (5000000000000001 / 10 ^ 15)
   \<and> Finite (75 / 10 + 1 / 2 ^ 50) = literal (7500000000000001 / 10 ^ 15)"
proof -
  have v: "(10 + 1 / 2 ^ 49 :: rat) = 5629499534213121 / 562949953421312"
    "(5 + 1 / 2 ^ 50 :: rat) = 5629499534213121 / 1125899906842624"
    "(75 / 10 + 1 / 2 ^ 50 :: rat) = 8444249301319681 / 1125899906842624"
    by simp_all
  show ?thesis
    unfolding cohort_run v literal_08 literal_04 literal_exact format_cohort repr_row3
      literal_row3
    by (simp add: column_simps)
qed

text \<open>
  C2 as stated fails: the computed columns are not exactly the binary64 values of the
  stated decimals (the third row differs in each), and the sum of the stabilized weights
  is neither the binary64 value of 7.5 nor the number 7.5.
\<close>

theorem C2_counterexample:
  "column (df (fst (projr (calculate_iptw_weights
       \<lparr>year = 2025, month = 11, day = 3, hour = 9, minute = 5, second = 0\<rparr> empty_world))))
       ''P(A|L)''
     \<noteq> [F (literal (8 / 10)), F (literal (4 / 10)), F (literal (1 / 10)), F (literal (8 / 10))]
   \<and> column (df (fst (projr (calculate_iptw_weights
       \<lparr>year = 2025, month = 11, day = 3, hour = 9, minute = 5, second = 0\<rparr> empty_world))))
       ''Raw IPTW''
     \<noteq> [F (literal (125 / 100)), F (literal (25 / 10)), F (literal 10), F (literal (125 / 100))]
   \<and> column (df (fst (projr (calculate_iptw_weights
       \<lparr>year = 2025, month = 11, day = 3, hour = 9, minute = 5, second = 0\<rparr> empty_world))))
       ''Stabilized IPTW''
     \<noteq> [F (literal (625 / 1000)), F (literal (125 / 100)), F (literal 5),
        F (literal (625 / 1000))]
   \<and> sum_siptw (fst (projr (calculate_iptw_weights
       \<lparr>year = 2025, month = 11, day = 3, hour = 9, minute = 5, second = 0\<rparr> empty_world)))
     \<noteq> literal (75 / 10)
   \<and> value_of (sum_siptw (fst (projr (calculate_iptw_weights
       \<lparr>year = 2025, month = 11, day = 3, hour = 9, minute = 5, second = 0\<rparr> empty_world))))
     \<noteq> 75 / 10"
  unfolding cohort_run literal_08 literal_04 literal_01 literal_exact
  by (simp add: column_simps)

text \<open>
  What a run of Scenario C returns, on any three numbers and at any clock reading: it
  raises nothing.
\<close>

lemma analyze_calibration_metrics_on_Inr:
  "analyze_calibration_metrics_on citl_bias observed_rate calibration_slope now w0 =
    Inr (\<lparr>average_predicted_prob = fadd citl_bias observed_rate,
          results_df = interpretation_data citl_bias observed_rate calibration_slope
                         (fadd citl_bias observed_rate)\<rparr>,
         w0\<lparr>stdout := stdout w0 @
              [Text ''--- Scenario C: Calibration Analysis ---'',
               Text (''CITL Bias (Given): '' @ py_repr citl_bias),
               Text (''Observed Rate (O/N): '' @ py_repr observed_rate
                     @ '' (Calculated as 100/1000)''),
               Text (''Calibration Slope (Given): '' @ py_repr calibration_slope @ [newline]),
               Text ''--- Final Calculated Result & Interpretation Summary ---'',
               Markdown (interpretation_data citl_bias observed_rate calibration_slope
                           (fadd citl_bias observed_rate)) (Some ''.2f''),
               Text (replicate 60 CHR ''-''),
               Text ([newline] @ check_mark
                     @ '' Numerical results and interpretation saved to: ''
                     @ OUTPUT_FILEPATH_C @ '' (Includes metadata header)'')],
            disk := (disk w0)(OUTPUT_FILEPATH_C \<mapsto>
              metadata_C citl_bias observed_rate now
              @ to_csv (interpretation_data citl_bias observed_rate calibration_slope
                          (fadd citl_bias observed_rate)) None)\<rparr>)"
proof -
  have "DataFrame (interpretation_data citl_bias observed_rate calibration_slope
          (fadd citl_bias observed_rate))
      = Inr (interpretation_data citl_bias observed_rate calibration_slope
          (fadd citl_bias observed_rate))"
    by (simp add: DataFrame_def interpretation_data_def)
  then show ?thesis
    unfolding analyze_calibration_metrics_on_def
    by (simp add: print_def write_file_def Let_def)
qed

lemma sum_of_constants: "fadd CITL_BIAS OBSERVED_RATE = Finite 0"
  unfolding CITL_BIAS_value OBSERVED_RATE_value
  by (simp add: fadd_def is_nan_def is_inf_def round_binary64_def)

lemma format_zero: "format_fixed 2 (Finite 0) = ''0.00''"
  by (simp add: round_half_even_def Let_def text_eval split del: if_split)

text \<open>
  C3. In Scenario C the average predicted probability is the binary64 sum of the CITL
  bias and the observed rate, and that is the value placed in the \<open>Result\<close> column. The
  two constants of the program are the binary64 values of \<open>-0.10\<close> and \<open>0.1\<close>, which
  are exact negatives of each other: their sum is exactly zero, with no rounding, and it
  is written \<open>0.0\<close> by default and \<open>0.00\<close> with two decimals.
\<close>

theorem C3_average_predicted_probability:
  "average_predicted_prob
       (fst (projr (analyze_calibration_metrics_on citl_bias observed_rate calibration_slope
          now w0)))
     = fadd citl_bias observed_rate
   \<and> column (results_df (fst (projr (analyze_calibration_metrics_on citl_bias observed_rate
          calibration_slope now w0)))) ''Result'' ! 1
     = F (fadd citl_bias observed_rate)
   \<and> CITL_BIAS = literal (- (10 / 100)) \<and> OBSERVED_RATE = literal (1 / 10)
   \<and> value_of CITL_BIAS + value_of OBSERVED_RATE = 0
   \<and> average_predicted_prob (fst (projr (analyze_calibration_metrics now w0))) = Finite 0
   \<and> py_repr (average_predicted_prob (fst (projr (analyze_calibration_metrics now w0)))) = ''0.0''
   \<and> format_fixed 2 (average_predicted_prob (fst (projr (analyze_calibration_metrics now w0))))
     = ''0.00''"
proof -
  have a: "average_predicted_prob
       (fst (projr (analyze_calibration_metrics_on citl_bias observed_rate calibration_slope
          now w0)))
     = fadd citl_bias observed_rate"
    unfolding analyze_calibration_metrics_on_Inr by simp
  have b: "column (results_df (fst (projr (analyze_calibration_metrics_on citl_bias observed_rate
          calibration_slope now w0)))) ''Result'' ! 1
     = F (fadd citl_bias observed_rate)"
    unfolding analyze_calibration_metrics_on_Inr
    by (simp add: column_simps interpretation_data_def)
  have e: "value_of CITL_BIAS + value_of OBSERVED_RATE = 0"
    unfolding CITL_BIAS_value OBSERVED_RATE_value by simp
  have f: "average_predicted_prob (fst (projr (analyze_calibration_metrics now w0))) = Finite 0"
    unfolding analyze_calibration_metrics_def analyze_calibration_metrics_on_Inr
    by (simp add: sum_of_constants)
  have g: "py_repr (average_predicted_prob (fst (projr (analyze_calibration_metrics now w0))))
      = ''0.0''"
    unfolding f by simp
  have h: "format_fixed 2 (average_predicted_prob
      (fst (projr (analyze_calibration_metrics now w0)))) = ''0.00''"
    unfolding f by (rule format_zero)
  show ?thesis
    by (intro conjI) (rule a b CITL_BIAS_def OBSERVED_RATE_def e f g h)+
qed

lemma interpretation_texts_on:
  "interpretation_texts (results_df (fst (projr
      (analyze_calibration_metrics_on citl_bias observed_rate calibration_slope now w0))))
   = [S ''The ideal slope is 1.0. A slope of 0.70 (< 1.0) indicates **poor refinement** and **overly extreme predictions** (Over-fitting). The model is too confident in its predictions.'',
      S (''Logic: Avg. Predicted Prob. = CITL Bias + Observed Rate. '' @ py_repr citl_bias
         @ '' + '' @ py_repr observed_rate @ '' = ''
         @ format_fixed 2 (fadd citl_bias observed_rate)
         @ ''. A result of 0.0 means the model is perfectly calibrated *on average* (CITL=0), as the observed rate is also 0.1. *Note: This is an unusual outcome based on the given inputs.*''),
      S ''For individual patients, the model overestimates high risks (e.g., predicting 80% when true risk is 60%) and underestimates low risks. This lack of reliability compromises clinical decision-making based on specific probabilities.'']"
  unfolding analyze_calibration_metrics_on_Inr
  by (simp add: interpretation_texts_def column_simps interpretation_data_def)

text \<open>
  C5. Of the three interpretation texts of Scenario C, the first and the third (the two
  that describe what the calibration slope implies) are string literals: they are the
  same for every value of the three numeric inputs. The second, the calculation logic of
  the average, carries the CITL bias and the observed rate as \<^verbatim>\<open>repr\<close> writes them and
  their sum with two decimals, between fixed words; these are constants of the program.
  Every run of the program, at any clock reading and from any state of the output,
  produces the same three texts, character for character.
\<close>

theorem C5_interpretation_texts:
  "interpretation_texts (results_df (fst (projr
      (analyze_calibration_metrics_on citl_bias observed_rate calibration_slope now w0)))) ! 0
   = S ''The ideal slope is 1.0. A slope of 0.70 (< 1.0) indicates **poor refinement** and **overly extreme predictions** (Over-fitting). The model is too confident in its predictions.''
   \<and> interpretation_texts (results_df (fst (projr
      (analyze_calibration_metrics_on citl_bias observed_rate calibration_slope now w0)))) ! 2
   = S ''For individual patients, the model overestimates high risks (e.g., predicting 80% when true risk is 60%) and underestimates low risks. This lack of reliability compromises clinical decision-making based on specific probabilities.''
   \<and> interpretation_texts (results_df (fst (projr
      (analyze_calibration_metrics_on citl_bias observed_rate calibration_slope now w0)))) ! 1
   = S (''Logic: Avg. Predicted Prob. = CITL Bias + Observed Rate. '' @ py_repr citl_bias
         @ '' + '' @ py_repr observed_rate @ '' = ''
         @ format_fixed 2 (fadd citl_bias observed_rate)
         @ ''. A result of 0.0 means the model is perfectly calibrated *on average* (CITL=0), as the observed rate is also 0.1. *Note: This is an unusual outcome based on the given inputs.*'')
   \<and> interpretation_texts (results_df (fst (projr (analyze_calibration_metrics now w0))))
   = [S ''The ideal slope is 1.0. A slope of 0.70 (< 1.0) indicates **poor refinement** and **overly extreme predictions** (Over-fitting). The model is too confident in its predictions.'',
      S ''Logic: Avg. Predicted Prob. = CITL Bias + Observed Rate. -0.1 + 0.1 = 0.00. A result of 0.0 means the model is perfectly calibrated *on average* (CITL=0), as the observed rate is also 0.1. *Note: This is an unusual outcome based on the given inputs.*'',
      S ''For individual patients, the model overestimates high risks (e.g., predicting 80% when true risk is 60%) and underestimates low risks. This lack of reliability compromises clinical decision-making based on specific probabilities.'']"
proof -
  have p: "py_repr CITL_BIAS = ''-0.1''" "py_repr OBSERVED_RATE = ''0.1''"
    unfolding CITL_BIAS_value OBSERVED_RATE_value
    by (rule repr_CITL_BIAS repr_OBSERVED_RATE)+
  show ?thesis
    unfolding analyze_calibration_metrics_def interpretation_texts_on p sum_of_constants
      format_zero
    by simp
qed

text \<open>The table of Scenario C as \<^verbatim>\<open>to_csv\<close> writes it: two of its texts hold commas and are quoted.\<close>

lemma csv_cell_S: "csv_cell ff (S s) = s"
  by (simp add: csv_cell_def)

lemma csv_cell_repr: "csv_cell None (F (Finite q)) = py_repr (Finite q)"
  by (simp add: csv_cell_def is_nan_def)

lemma calibration_cells:
  "csv_cell None (F CALIBRATION_SLOPE) = ''0.7''" "csv_cell None (F (Finite 0)) = ''0.0''"
  unfolding CALIBRATION_SLOPE_value csv_cell_repr repr_CALIBRATION_SLOPE
  by simp_all

lemma csv_field_plain:
  "csv_field ''Metric'' = ''Metric''" "csv_field ''Result'' = ''Result''"
  "csv_field ''Calculation/Interpretation Logic'' = ''Calculation/Interpretation Logic''"
  "csv_field ''1. Calibration Slope'' = ''1. Calibration Slope''"
  "csv_field ''2. Average Predicted Probability (Calculated)''
     = ''2. Average Predicted Probability (Calculated)''"
  "csv_field ''3. Clinical Implication (Slope 0.70)'' = ''3. Clinical Implication (Slope 0.70)''"
  "csv_field ''0.7'' = ''0.7''" "csv_field ''0.0'' = ''0.0''" "csv_field ''N/A'' = ''N/A''"
  "csv_field ''The ideal slope is 1.0. A slope of 0.70 (< 1.0) indicates **poor refinement** and **overly extreme predictions** (Over-fitting). The model is too confident in its predictions.''
     = ''The ideal slope is 1.0. A slope of 0.70 (< 1.0) indicates **poor refinement** and **overly extreme predictions** (Over-fitting). The model is too confident in its predictions.''"
  by (simp_all add: csv_field_def dquote_def newline_def)

lemma csv_field_quoted:
  "csv_field ''Logic: Avg. Predicted Prob. = CITL Bias + Observed Rate. -0.1 + 0.1 = 0.00. A result of 0.0 means the model is perfectly calibrated *on average* (CITL=0), as the observed rate is also 0.1. *Note: This is an unusual outcome based on the given inputs.*''
     = [dquote] @ ''Logic: Avg. Predicted Prob. = CITL Bias + Observed Rate. -0.1 + 0.1 = 0.00. A result of 0.0 means the model is perfectly calibrated *on average* (CITL=0), as the observed rate is also 0.1. *Note: This is an unusual outcome based on the given inputs.*'' @ [dquote]"
  "csv_field ''For individual patients, the model overestimates high risks (e.g., predicting 80% when true risk is 60%) and underestimates low risks. This lack of reliability compromises clinical decision-making based on specific probabilities.''
     = [dquote] @ ''For individual patients, the model overestimates high risks (e.g., predicting 80% when true risk is 60%) and underestimates low risks. This lack of reliability compromises clinical decision-making based on specific probabilities.'' @ [dquote]"
  by (simp_all add: csv_field_def dquote_def newline_def)


lemma calibration_csv:
  "to_csv (interpretation_data CITL_BIAS OBSERVED_RATE CALIBRATION_SLOPE (Finite 0)) None =
   ''Metric,Result,Calculation/Interpretation Logic'' @ [newline]
   @ ''1. Calibration Slope,0.7,The ideal slope is 1.0. A slope of 0.70 (< 1.0) indicates **poor refinement** and **overly extreme predictions** (Over-fitting). The model is too confident in its predictions.'' @ [newline]
   @ ''2. Average Predicted Probability (Calculated),0.0,'' @ [dquote]
   @ ''Logic: Avg. Predicted Prob. = CITL Bias + Observed Rate. -0.1 + 0.1 = 0.00. A result of 0.0 means the model is perfectly calibrated *on average* (CITL=0), as the observed rate is also 0.1. *Note: This is an unusual outcome based on the given inputs.*'' @ [dquote] @ [newline]
   @ ''3. Clinical Implication (Slope 0.70),N/A,'' @ [dquote]
   @ ''For individual patients, the model overestimates high risks (e.g., predicting 80% when true risk is 60%) and underestimates low risks. This lack of reliability compromises clinical decision-making based on specific probabilities.'' @ [dquote] @ [newline]"
proof -
  have p: "py_repr CITL_BIAS = ''-0.1''" "py_repr OBSERVED_RATE = ''0.1''"
    unfolding CITL_BIAS_value OBSERVED_RATE_value
    by (rule repr_CITL_BIAS repr_OBSERVED_RATE)+
  have t: "transpose (map snd (interpretation_data CITL_BIAS OBSERVED_RATE CALIBRATION_SLOPE
      (Finite 0)))
    = [[S ''1. Calibration Slope'', F CALIBRATION_SLOPE,
        S ''The ideal slope is 1.0. A slope of 0.70 (< 1.0) indicates **poor refinement** and **overly extreme predictions** (Over-fitting). The model is too confident in its predictions.''],
       [S ''2. Average Predicted Probability (Calculated)'', F (Finite 0),
        S ''Logic: Avg. Predicted Prob. = CITL Bias + Observed Rate. -0.1 + 0.1 = 0.00. A result of 0.0 means the model is perfectly calibrated *on average* (CITL=0), as the observed rate is also 0.1. *Note: This is an unusual outcome based on the given inputs.*''],
       [S ''3. Clinical Implication (Slope 0.70)'', S ''N/A'',
        S ''For individual patients, the model overestimates high risks (e.g., predicting 80% when true risk is 60%) and underestimates low risks. This lack of reliability compromises clinical decision-making based on specific probabilities.'']]"
    unfolding interpretation_data_def p format_zero by simp
  have h: "map fst (interpretation_data CITL_BIAS OBSERVED_RATE CALIBRATION_SLOPE (Finite 0))
    = [''Metric'', ''Result'', ''Calculation/Interpretation Logic'']"
    by (simp add: interpretation_data_def)
  show ?thesis
    unfolding to_csv_def t h
    by (simp add: csv_row_def csv_cell_S calibration_cells csv_field_plain csv_field_quoted)
qed

text \<open>The run of Scenario C with the constants of the program, at any clock reading.\<close>

lemma calibration_run:
  "analyze_calibration_metrics now w0 =
    Inr (\<lparr>average_predicted_prob = Finite 0,
          results_df = interpretation_data CITL_BIAS OBSERVED_RATE CALIBRATION_SLOPE (Finite 0)\<rparr>,
         w0\<lparr>stdout := stdout w0 @
              [Text ''--- Scenario C: Calibration Analysis ---'',
               Text ''CITL Bias (Given): -0.1'',
               Text ''Observed Rate (O/N): 0.1 (Calculated as 100/1000)'',
               Text (''Calibration Slope (Given): 0.7'' @ [newline]),
               Text ''--- Final Calculated Result & Interpretation Summary ---'',
               Markdown (interpretation_data CITL_BIAS OBSERVED_RATE CALIBRATION_SLOPE (Finite 0))
                 (Some ''.2f''),
               Text ''------------------------------------------------------------'',
               Text ([newline] @ check_mark
                     @ '' Numerical results and interpretation saved to: data/scenario_C_results.csv (Includes metadata header)'')],
            disk := (disk w0)(''data/scenario_C_results.csv'' \<mapsto>
              ''# Results for Scenario C: Calibration Evaluation'' @ [newline]
              @ ''# ------------------------------------------------------------------'' @ [newline]
              @ ''# Task: Calculate Average Predicted Probability and provide interpretations.''
              @ [newline]
              @ ''# Input Values: CITL Bias=-0.1, Observed Rate=0.1'' @ [newline]
              @ ''# Date Generated: '' @ strftime now @ [newline]
              @ ''# ------------------------------------------------------------------'' @ [newline]
              @ ''Metric,Result,Calculation/Interpretation Logic'' @ [newline]
              @ ''1. Calibration Slope,0.7,The ideal slope is 1.0. A slope of 0.70 (< 1.0) indicates **poor refinement** and **overly extreme predictions** (Over-fitting). The model is too confident in its predictions.'' @ [newline]
              @ ''2. Average Predicted Probability (Calculated),0.0,'' @ [dquote]
              @ ''Logic: Avg. Predicted Prob. = CITL Bias + Observed Rate. -0.1 + 0.1 = 0.00. A result of 0.0 means the model is perfectly calibrated *on average* (CITL=0), as the observed rate is also 0.1. *Note: This is an unusual outcome based on the given inputs.*'' @ [dquote] @ [newline]
              @ ''3. Clinical Implication (Slope 0.70),N/A,'' @ [dquote]
              @ ''For individual patients, the model overestimates high risks (e.g., predicting 80% when true risk is 60%) and underestimates low risks. This lack of reliability compromises clinical decision-making based on specific probabilities.'' @ [dquote] @ [newline])\<rparr>)"
proof -
  have p: "py_repr CITL_BIAS = ''-0.1''" "py_repr OBSERVED_RATE = ''0.1''"
    "py_repr CALIBRATION_SLOPE = ''0.7''"
    unfolding CITL_BIAS_value OBSERVED_RATE_value CALIBRATION_SLOPE_value
    by (rule repr_CITL_BIAS repr_OBSERVED_RATE repr_CALIBRATION_SLOPE)+
  have sixty: "replicate 60 CHR ''-''
      = ''------------------------------------------------------------''"
    by (simp add: replicate_numeral)
  show ?thesis
    unfolding analyze_calibration_metrics_def analyze_calibration_metrics_on_Inr
      sum_of_constants calibration_csv metadata_C_def p sixty OUTPUT_FILEPATH_C_def
    by simp
qed

text \<open>Lines: a text that ends each line with a newline splits into those lines.\<close>

lemma split_lines_Nil: "split_lines [] = []"
  by (simp add: split_lines_def)

lemma split_lines_line:
  assumes "newline \<notin> set l"
  shows "split_lines (l @ newline # rest) = l # split_lines rest"
  using assms
proof (induction l)
  case Nil
  then show ?case
    by (simp add: split_lines_def)
next
  case (Cons c l)
  then have "split_lines (l @ newline # rest) = l # split_lines rest" and "c \<noteq> newline"
    by auto
  then show ?case
    by (simp add: split_lines_def)
qed

lemma zfill_digits_no_newline: "newline \<notin> set (zfill w (digits n))"
proof -
  have "set (zfill w (digits n)) \<subseteq> set ''0123456789''"
    using digits_are_digits [of n] by (auto simp add: zfill_def)
  moreover have "newline \<notin> set ''0123456789''"
    by (simp add: newline_def)
  ultimately show ?thesis
    by blast
qed

lemma strftime_no_newline: "newline \<notin> set (strftime t)"
  using zfill_digits_no_newline by (simp add: strftime_def newline_def)

text \<open>The lines of the two files the program writes.\<close>

lemma split_lines_concat:
  assumes "list_all (\<lambda>l. newline \<notin> set l) ls"
  shows "split_lines (concat (map (\<lambda>l. l @ [newline]) ls)) = ls"
  using assms
proof (induction ls)
  case Nil
  then show ?case
    by (simp add: split_lines_Nil)
next
  case (Cons l ls)
  then show ?case
    using split_lines_line [of l "concat (map (\<lambda>l. l @ [newline]) ls)"] by simp
qed

lemma cohort_file_lines:
  "split_lines
     (''# Results for Scenario B: IPTW and Stabilized IPTW Calculation'' @ [newline]
      @ ''# ------------------------------------------------------------------'' @ [newline]
      @ ''# Task: Calculate Raw IPTW, Stabilized IPTW, and the Sum of SIPTW.'' @ [newline]
      @ ''# ASSUMPTION: Marginal Probability P(A=1) = 0.5'' @ [newline]
      @ ''# Columns: Raw IPTW and Stabilized IPTW per patient.'' @ [newline]
      @ ''# Date Generated: '' @ strftime now @ [newline]
      @ ''# ------------------------------------------------------------------'' @ [newline]
      @ ''Patient ID,A (Treatment),g (Propensity Score),Raw IPTW,Stabilized IPTW''
      @ [newline]
      @ ''1,1,0.8000,1.2500,0.6250'' @ [newline]
      @ ''2,1,0.4000,2.5000,1.2500'' @ [newline]
      @ ''3,0,0.9000,10.0000,5.0000'' @ [newline]
      @ ''4,0,0.2000,1.2500,0.6250'' @ [newline])
   = [''# Results for Scenario B: IPTW and Stabilized IPTW Calculation'',
      ''# ------------------------------------------------------------------'',
      ''# Task: Calculate Raw IPTW, Stabilized IPTW, and the Sum of SIPTW.'',
      ''# ASSUMPTION: Marginal Probability P(A=1) = 0.5'',
      ''# Columns: Raw IPTW and Stabilized IPTW per patient.'',
      ''# Date Generated: '' @ strftime now,
      ''# ------------------------------------------------------------------'',
      ''Patient ID,A (Treatment),g (Propensity Score),Raw IPTW,Stabilized IPTW'',
      ''1,1,0.8000,1.2500,0.6250'',
      ''2,1,0.4000,2.5000,1.2500'',
      ''3,0,0.9000,10.0000,5.0000'',
      ''4,0,0.2000,1.2500,0.6250'']"
  (is "split_lines ?text = ?lines")
proof -
  have "list_all (\<lambda>l. newline \<notin> set l) ?lines"
    using strftime_no_newline [of now] by (simp add: newline_def)
  then have "split_lines (concat (map (\<lambda>l. l @ [newline]) ?lines)) = ?lines"
    by (rule split_lines_concat)
  moreover have "concat (map (\<lambda>l. l @ [newline]) ?lines) = ?text"
    by simp
  ultimately show ?thesis
    by (simp only:)
qed


lemma calibration_file_lines:
  "split_lines
     (''# Results for Scenario C: Calibration Evaluation'' @ [newline]
      @ ''# ------------------------------------------------------------------'' @ [newline]
      @ ''# Task: Calculate Average Predicted Probability and provide interpretations.''
      @ [newline]
      @ ''# Input Values: CITL Bias=-0.1, Observed Rate=0.1'' @ [newline]
      @ ''# Date Generated: '' @ strftime now @ [newline]
      @ ''# ------------------------------------------------------------------'' @ [newline]
      @ ''Metric,Result,Calculation/Interpretation Logic'' @ [newline]
      @ ''1. Calibration Slope,0.7,The ideal slope is 1.0. A slope of 0.70 (< 1.0) indicates **poor refinement** and **overly extreme predictions** (Over-fitting). The model is too confident in its predictions.'' @ [newline]
      @ ''2. Average Predicted Probability (Calculated),0.0,'' @ [dquote]
      @ ''Logic: Avg. Predicted Prob. = CITL Bias + Observed Rate. -0.1 + 0.1 = 0.00. A result of 0.0 means the model is perfectly calibrated *on average* (CITL=0), as the observed rate is also 0.1. *Note: This is an unusual outcome based on the given inputs.*'' @ [dquote] @ [newline]
      @ ''3. Clinical Implication (Slope 0.70),N/A,'' @ [dquote]
      @ ''For individual patients, the model overestimates high risks (e.g., predicting 80% when true risk is 60%) and underestimates low risks. This lack of reliability compromises clinical decision-making based on specific probabilities.'' @ [dquote] @ [newline])
   = [''# Results for Scenario C: Calibration Evaluation'',
      ''# ------------------------------------------------------------------'',
      ''# Task: Calculate Average Predicted Probability and provide interpretations.'',
      ''# Input Values: CITL Bias=-0.1, Observed Rate=0.1'',
      ''# Date Generated: '' @ strftime now,
      ''# ------------------------------------------------------------------'',
      ''Metric,Result,Calculation/Interpretation Logic'',
      ''1. Calibration Slope,0.7,The ideal slope is 1.0. A slope of 0.70 (< 1.0) indicates **poor refinement** and **overly extreme predictions** (Over-fitting). The model is too confident in its predictions.'',
      ''2. Average Predicted Probability (Calculated),0.0,'' @ [dquote]
        @ ''Logic: Avg. Predicted Prob. = CITL Bias + Observed Rate. -0.1 + 0.1 = 0.00. A result of 0.0 means the model is perfectly calibrated *on average* (CITL=0), as the observed rate is also 0.1. *Note: This is an unusual outcome based on the given inputs.*'' @ [dquote],
      ''3. Clinical Implication (Slope 0.70),N/A,'' @ [dquote]
        @ ''For individual patients, the model overestimates high risks (e.g., predicting 80% when true risk is 60%) and underestimates low risks. This lack of reliability compromises clinical decision-making based on specific probabilities.'' @ [dquote]]"
  (is "split_lines ?text = ?lines")
proof -
  have "list_all (\<lambda>l. newline \<notin> set l) ?lines"
    using strftime_no_newline [of now] by (simp add: newline_def dquote_def)
  then have "split_lines (concat (map (\<lambda>l. l @ [newline]) ?lines)) = ?lines"
    by (rule split_lines_concat)
  moreover have "concat (map (\<lambda>l. l @ [newline]) ?lines) = ?text"
    by simp
  ultimately show ?thesis
    by (simp only:)
qed

text \<open>The shape of a time stamp: every digit shown as \<open>9\<close>.\<close>

lemma mask_digit:
  assumes "0 \<le> d" and "d < 10"
  shows "(if digit_char d \<in> set ''0123456789'' then CHR ''9'' else digit_char d) = CHR ''9''"
  using digit_char_is_digit [OF assms(2)] by simp

lemma digits_one: "n < 10 \<Longrightarrow> digits n = [digit_char n]"
  by (subst digits.simps) simp

lemma digits_more: "10 \<le> n \<Longrightarrow> digits n = digits (n div 10) @ [digit_char (n mod 10)]"
  by (subst digits.simps) simp

lemma mask_two_digits:
  assumes "0 \<le> n" and "n \<le> 99"
  shows "map (\<lambda>c. if c \<in> set ''0123456789'' then CHR ''9'' else c) (zfill 2 (digits n)) = ''99''"
proof (cases "n < 10")
  case True
  then show ?thesis
    using mask_digit [of n] assms by (simp add: digits_one zfill_def)
next
  case False
  then have "0 \<le> n div 10" "n div 10 < 10" "0 \<le> n mod 10" "n mod 10 < 10"
    using assms by simp_all
  then show ?thesis
    using False mask_digit [of "n div 10"] mask_digit [of "n mod 10"]
    by (simp add: digits_more digits_one zfill_def)
qed

lemma mask_four_digits:
  assumes "1000 \<le> n" and "n \<le> 9999"
  shows "map (\<lambda>c. if c \<in> set ''0123456789'' then CHR ''9'' else c) (zfill 4 (digits n)) = ''9999''"
proof -
  have a: "10 \<le> n" "10 \<le> n div 10" "10 \<le> n div 10 div 10" "n div 10 div 10 div 10 < 10"
    "0 \<le> n div 10 div 10 div 10"
    using assms by simp_all
  have b: "0 \<le> n mod 10" "n mod 10 < 10" "0 \<le> n div 10 mod 10" "n div 10 mod 10 < 10"
    "0 \<le> n div 10 div 10 mod 10" "n div 10 div 10 mod 10 < 10"
    by simp_all
  have "digits n = [digit_char (n div 10 div 10 div 10), digit_char (n div 10 div 10 mod 10),
      digit_char (n div 10 mod 10), digit_char (n mod 10)]"
    using a by (simp add: digits_more digits_one)
  then show ?thesis
    using mask_digit [OF a(5) a(4)] mask_digit [OF b(1) b(2)] mask_digit [OF b(3) b(4)]
      mask_digit [OF b(5) b(6)]
    by (simp add: zfill_def)
qed

lemma strftime_shape:
  assumes "valid_timestamp t"
  shows "map (\<lambda>c. if c \<in> set ''0123456789'' then CHR ''9'' else c) (strftime t)
    = ''9999-99-99 99:99:99''"
proof -
  have y: "1000 \<le> year t" "year t \<le> 9999"
    using assms by (simp_all add: valid_timestamp_def)
  have f: "0 \<le> month t" "month t \<le> 99" "0 \<le> day t" "day t \<le> 99" "0 \<le> hour t"
    "hour t \<le> 99" "0 \<le> minute t" "minute t \<le> 99" "0 \<le> second t" "second t \<le> 99"
    using assms by (simp_all add: valid_timestamp_def)
  show ?thesis
    unfolding strftime_def map_append mask_four_digits [OF y] mask_two_digits [OF f(1,2)]
      mask_two_digits [OF f(3,4)] mask_two_digits [OF f(5,6)] mask_two_digits [OF f(7,8)]
      mask_two_digits [OF f(9,10)]
    by simp
qed

text \<open>The text of each file, as the run leaves it on the disk.\<close>

lemma cohort_file:
  "disk (snd (projr (calculate_iptw_weights now w0))) OUTPUT_FILEPATH_B =
   Some (''# Results for Scenario B: IPTW and Stabilized IPTW Calculation'' @ [newline]
      @ ''# ------------------------------------------------------------------'' @ [newline]
      @ ''# Task: Calculate Raw IPTW, Stabilized IPTW, and the Sum of SIPTW.'' @ [newline]
      @ ''# ASSUMPTION: Marginal Probability P(A=1) = 0.5'' @ [newline]
      @ ''# Columns: Raw IPTW and Stabilized IPTW per patient.'' @ [newline]
      @ ''# Date Generated: '' @ strftime now @ [newline]
      @ ''# ------------------------------------------------------------------'' @ [newline]
      @ ''Patient ID,A (Treatment),g (Propensity Score),Raw IPTW,Stabilized IPTW''
      @ [newline]
      @ ''1,1,0.8000,1.2500,0.6250'' @ [newline]
      @ ''2,1,0.4000,2.5000,1.2500'' @ [newline]
      @ ''3,0,0.9000,10.0000,5.0000'' @ [newline]
      @ ''4,0,0.2000,1.2500,0.6250'' @ [newline])"
  unfolding cohort_run by (simp add: OUTPUT_FILEPATH_B_def)

lemma calibration_file:
  "disk (snd (projr (analyze_calibration_metrics now w0))) OUTPUT_FILEPATH_C =
   Some (''# Results for Scenario C: Calibration Evaluation'' @ [newline]
      @ ''# ------------------------------------------------------------------'' @ [newline]
      @ ''# Task: Calculate Average Predicted Probability and provide interpretations.''
      @ [newline]
      @ ''# Input Values: CITL Bias=-0.1, Observed Rate=0.1'' @ [newline]
      @ ''# Date Generated: '' @ strftime now @ [newline]
      @ ''# ------------------------------------------------------------------'' @ [newline]
      @ ''Metric,Result,Calculation/Interpretation Logic'' @ [newline]
      @ ''1. Calibration Slope,0.7,The ideal slope is 1.0. A slope of 0.70 (< 1.0) indicates **poor refinement** and **overly extreme predictions** (Over-fitting). The model is too confident in its predictions.'' @ [newline]
      @ ''2. Average Predicted Probability (Calculated),0.0,'' @ [dquote]
      @ ''Logic: Avg. Predicted Prob. = CITL Bias + Observed Rate. -0.1 + 0.1 = 0.00. A result of 0.0 means the model is perfectly calibrated *on average* (CITL=0), as the observed rate is also 0.1. *Note: This is an unusual outcome based on the given inputs.*'' @ [dquote] @ [newline]
      @ ''3. Clinical Implication (Slope 0.70),N/A,'' @ [dquote]
      @ ''For individual patients, the model overestimates high risks (e.g., predicting 80% when true risk is 60%) and underestimates low risks. This lack of reliability compromises clinical decision-making based on specific probabilities.'' @ [dquote] @ [newline])"
  unfolding calibration_run by (simp add: OUTPUT_FILEPATH_C_def)

text \<open>
  C7. The file of each scenario is, line by line: the metadata lines, each starting with
  \<open>#\<close>, among them the line \<open># Date Generated:\<close> with the time stamp; then the header
  row of column names; then one comma-separated row per record. Scenario B writes its
  floats with four decimals (its two integer columns as integers); Scenario C writes its
  two numbers as \<^verbatim>\<open>repr\<close> does, \<open>0.7\<close> and \<open>0.0\<close>, and wraps in double quotes the
  two texts that hold commas. For the fields of a pandas time stamp, the stamp has the
  shape \<open>YYYY-MM-DD HH:MM:SS\<close>.
\<close>

theorem C7_output_file_format:
  "map_option split_lines
      (disk (snd (projr (calculate_iptw_weights now w0))) OUTPUT_FILEPATH_B)
   = Some
     [''# Results for Scenario B: IPTW and Stabilized IPTW Calculation'',
      ''# ------------------------------------------------------------------'',
      ''# Task: Calculate Raw IPTW, Stabilized IPTW, and the Sum of SIPTW.'',
      ''# ASSUMPTION: Marginal Probability P(A=1) = 0.5'',
      ''# Columns: Raw IPTW and Stabilized IPTW per patient.'',
      ''# Date Generated: '' @ strftime now,
      ''# ------------------------------------------------------------------'',
      ''Patient ID,A (Treatment),g (Propensity Score),Raw IPTW,Stabilized IPTW'',
      ''1,1,0.8000,1.2500,0.6250'',
      ''2,1,0.4000,2.5000,1.2500'',
      ''3,0,0.9000,10.0000,5.0000'',
      ''4,0,0.2000,1.2500,0.6250'']
   \<and> map_option split_lines
      (disk (snd (projr (analyze_calibration_metrics now w0))) OUTPUT_FILEPATH_C)
   = Some
     [''# Results for Scenario C: Calibration Evaluation'',
      ''# ------------------------------------------------------------------'',
      ''# Task: Calculate Average Predicted Probability and provide interpretations.'',
      ''# Input Values: CITL Bias=-0.1, Observed Rate=0.1'',
      ''# Date Generated: '' @ strftime now,
      ''# ------------------------------------------------------------------'',
      ''Metric,Result,Calculation/Interpretation Logic'',
      ''1. Calibration Slope,0.7,The ideal slope is 1.0. A slope of 0.70 (< 1.0) indicates **poor refinement** and **overly extreme predictions** (Over-fitting). The model is too confident in its predictions.'',
      ''2. Average Predicted Probability (Calculated),0.0,'' @ [dquote]
        @ ''Logic: Avg. Predicted Prob. = CITL Bias + Observed Rate. -0.1 + 0.1 = 0.00. A result of 0.0 means the model is perfectly calibrated *on average* (CITL=0), as the observed rate is also 0.1. *Note: This is an unusual outcome based on the given inputs.*'' @ [dquote],
      ''3. Clinical Implication (Slope 0.70),N/A,'' @ [dquote]
        @ ''For individual patients, the model overestimates high risks (e.g., predicting 80% when true risk is 60%) and underestimates low risks. This lack of reliability compromises clinical decision-making based on specific probabilities.'' @ [dquote]]
   \<and> (valid_timestamp now \<longrightarrow>
        map (\<lambda>c. if c \<in> set ''0123456789'' then CHR ''9'' else c) (strftime now)
        = ''9999-99-99 99:99:99'')"
proof -
  have b: "map_option split_lines
      (disk (snd (projr (calculate_iptw_weights now w0))) OUTPUT_FILEPATH_B)
   = Some
     [''# Results for Scenario B: IPTW and Stabilized IPTW Calculation'',
      ''# ------------------------------------------------------------------'',
      ''# Task: Calculate Raw IPTW, Stabilized IPTW, and the Sum of SIPTW.'',
      ''# ASSUMPTION: Marginal Probability P(A=1) = 0.5'',
      ''# Columns: Raw IPTW and Stabilized IPTW per patient.'',
      ''# Date Generated: '' @ strftime now,
      ''# ------------------------------------------------------------------'',
      ''Patient ID,A (Treatment),g (Propensity Score),Raw IPTW,Stabilized IPTW'',
      ''1,1,0.8000,1.2500,0.6250'',
      ''2,1,0.4000,2.5000,1.2500'',
      ''3,0,0.9000,10.0000,5.0000'',
      ''4,0,0.2000,1.2500,0.6250'']"
    by (simp only: cohort_file option.map cohort_file_lines)
  have c: "map_option split_lines
      (disk (snd (projr (analyze_calibration_metrics now w0))) OUTPUT_FILEPATH_C)
   = Some
     [''# Results for Scenario C: Calibration Evaluation'',
      ''# ------------------------------------------------------------------'',
      ''# Task: Calculate Average Predicted Probability and provide interpretations.'',
      ''# Input Values: CITL Bias=-0.1, Observed Rate=0.1'',
      ''# Date Generated: '' @ strftime now,
      ''# ------------------------------------------------------------------'',
      ''Metric,Result,Calculation/Interpretation Logic'',
      ''1. Calibration Slope,0.7,The ideal slope is 1.0. A slope of 0.70 (< 1.0) indicates **poor refinement** and **overly extreme predictions** (Over-fitting). The model is too confident in its predictions.'',
      ''2. Average Predicted Probability (Calculated),0.0,'' @ [dquote]
        @ ''Logic: Avg. Predicted Prob. = CITL Bias + Observed Rate. -0.1 + 0.1 = 0.00. A result of 0.0 means the model is perfectly calibrated *on average* (CITL=0), as the observed rate is also 0.1. *Note: This is an unusual outcome based on the given inputs.*'' @ [dquote],
      ''3. Clinical Implication (Slope 0.70),N/A,'' @ [dquote]
        @ ''For individual patients, the model overestimates high risks (e.g., predicting 80% when true risk is 60%) and underestimates low risks. This lack of reliability compromises clinical decision-making based on specific probabilities.'' @ [dquote]]"
    by (simp only: calibration_file option.map calibration_file_lines)
  have t: "valid_timestamp now \<longrightarrow>
        map (\<lambda>c. if c \<in> set ''0123456789'' then CHR ''9'' else c) (strftime now)
        = ''9999-99-99 99:99:99''"
    using strftime_shape by blast
  show ?thesis
    by (intro conjI) (rule b c t)+
qed

text \<open>The theorem at 3 November 2025, 09:05:00.\<close>

theorem C7_output_file_format_witness:
  "valid_timestamp \<lparr>year = 2025, month = 11, day = 3, hour = 9, minute = 5, second = 0\<rparr>
   \<and> map (\<lambda>c. if c \<in> set ''0123456789'' then CHR ''9'' else c)
         (strftime \<lparr>year = 2025, month = 11, day = 3, hour = 9, minute = 5, second = 0\<rparr>)
       = ''9999-99-99 99:99:99''
   \<and> strftime \<lparr>year = 2025, month = 11, day = 3, hour = 9, minute = 5, second = 0\<rparr>
       = ''2025-11-03 09:05:00''"
proof -
  have v: "valid_timestamp \<lparr>year = 2025, month = 11, day = 3, hour = 9, minute = 5, second = 0\<rparr>"
    by (simp add: valid_timestamp_def)
  have s: "strftime \<lparr>year = 2025, month = 11, day = 3, hour = 9, minute = 5, second = 0\<rparr>
       = ''2025-11-03 09:05:00''"
    by (simp add: strftime_def text_eval split del: if_split)
  show ?thesis
    using v s C7_output_file_format
      [of "\<lparr>year = 2025, month = 11, day = 3, hour = 9, minute = 5, second = 0\<rparr>" empty_world]
    by blast
qed

text \<open>
  C6. Run a scenario, then run it again on what the first run left, at any two clock
  readings. Both runs return normally with the same computed values and print the same
  things; the files they write have the same lines but for the one line that holds the
  time stamp (the sixth line in Scenario B, the fifth in Scenario C), which is
  \<open># Date Generated:\<close> followed by the stamp of that run.
\<close>

theorem C6_two_runs_agree:
  "(let r1 = calculate_iptw_weights now1 w0;
        r2 = calculate_iptw_weights now2 (snd (projr r1))
    in \<not> isl r1 \<and> \<not> isl r2 \<and> fst (projr r1) = fst (projr r2)
       \<and> drop (length (stdout w0)) (stdout (snd (projr r1)))
           = drop (length (stdout (snd (projr r1)))) (stdout (snd (projr r2)))
       \<and> map_option (\<lambda>s. (split_lines s)[5 := []]) (disk (snd (projr r1)) OUTPUT_FILEPATH_B)
           = map_option (\<lambda>s. (split_lines s)[5 := []]) (disk (snd (projr r2)) OUTPUT_FILEPATH_B)
       \<and> map_option (\<lambda>s. split_lines s ! 5) (disk (snd (projr r1)) OUTPUT_FILEPATH_B)
           = Some (''# Date Generated: '' @ strftime now1)
       \<and> map_option (\<lambda>s. split_lines s ! 5) (disk (snd (projr r2)) OUTPUT_FILEPATH_B)
           = Some (''# Date Generated: '' @ strftime now2))
   \<and> (let r1 = analyze_calibration_metrics now1 w0;
            r2 = analyze_calibration_metrics now2 (snd (projr r1))
        in \<not> isl r1 \<and> \<not> isl r2 \<and> fst (projr r1) = fst (projr r2)
           \<and> drop (length (stdout w0)) (stdout (snd (projr r1)))
               = drop (length (stdout (snd (projr r1)))) (stdout (snd (projr r2)))
           \<and> map_option (\<lambda>s. (split_lines s)[4 := []]) (disk (snd (projr r1)) OUTPUT_FILEPATH_C)
               = map_option (\<lambda>s. (split_lines s)[4 := []])
                   (disk (snd (projr r2)) OUTPUT_FILEPATH_C)
           \<and> map_option (\<lambda>s. split_lines s ! 4) (disk (snd (projr r1)) OUTPUT_FILEPATH_C)
               = Some (''# Date Generated: '' @ strftime now1)
           \<and> map_option (\<lambda>s. split_lines s ! 4) (disk (snd (projr r2)) OUTPUT_FILEPATH_C)
               = Some (''# Date Generated: '' @ strftime now2))"
proof -
  have b1: "\<not> isl (calculate_iptw_weights now w)" for now w
    by (simp add: cohort_run)
  have b2: "fst (projr (calculate_iptw_weights now w))
      = fst (projr (calculate_iptw_weights now' w'))" for now now' w w'
    by (simp add: cohort_run)
  have b3: "drop (length (stdout w)) (stdout (snd (projr (calculate_iptw_weights now w))))
      = drop (length (stdout w')) (stdout (snd (projr (calculate_iptw_weights now' w'))))"
    for now now' w w'
    by (simp add: cohort_run)
  have b4: "map_option (\<lambda>s. (split_lines s)[5 := []])
        (disk (snd (projr (calculate_iptw_weights now w))) OUTPUT_FILEPATH_B)
      = map_option (\<lambda>s. (split_lines s)[5 := []])
        (disk (snd (projr (calculate_iptw_weights now' w'))) OUTPUT_FILEPATH_B)"
    for now now' w w'
    unfolding cohort_file option.map cohort_file_lines by simp
  have b5: "map_option (\<lambda>s. split_lines s ! 5)
        (disk (snd (projr (calculate_iptw_weights now w))) OUTPUT_FILEPATH_B)
      = Some (''# Date Generated: '' @ strftime now)" for now w
    unfolding cohort_file option.map cohort_file_lines by simp
  have c1: "\<not> isl (analyze_calibration_metrics now w)" for now w
    by (simp add: calibration_run)
  have c2: "fst (projr (analyze_calibration_metrics now w))
      = fst (projr (analyze_calibration_metrics now' w'))" for now now' w w'
    by (simp add: calibration_run)
  have c3: "drop (length (stdout w)) (stdout (snd (projr (analyze_calibration_metrics now w))))
      = drop (length (stdout w')) (stdout (snd (projr (analyze_calibration_metrics now' w'))))"
    for now now' w w'
    by (simp add: calibration_run)
  have c4: "map_option (\<lambda>s. (split_lines s)[4 := []])
        (disk (snd (projr (analyze_calibration_metrics now w))) OUTPUT_FILEPATH_C)
      = map_option (\<lambda>s. (split_lines s)[4 := []])
        (disk (snd (projr (analyze_calibration_metrics now' w'))) OUTPUT_FILEPATH_C)"
    for now now' w w'
    unfolding calibration_file option.map calibration_file_lines by simp
  have c5: "map_option (\<lambda>s. split_lines s ! 4)
        (disk (snd (projr (analyze_calibration_metrics now w))) OUTPUT_FILEPATH_C)
      = Some (''# Date Generated: '' @ strftime now)" for now w
    unfolding calibration_file option.map calibration_file_lines by simp
  show ?thesis
    unfolding Let_def
    by (intro conjI) (rule b1 b2 b3 b4 b5 c1 c2 c3 c4 c5)+
qed

text \<open>
  C10. In Scenario B, on any table whose three columns have one length, the reported table
  (the one handed to the table renderer with the format \<open>.4f\<close> and the one written to
  the file after the metadata) has exactly the five columns \<open>Patient ID\<close>,
  \<open>A (Treatment)\<close>, \<open>g (Propensity Score)\<close>, \<open>Raw IPTW\<close>, \<open>Stabilized IPTW\<close>, in that
  order. Its first three columns are the input columns, unchanged and in the input order of
  the rows; its last two are the computed weights. The frame also holds the columns
  \<open>P(A|L)\<close> and \<open>P(A)\<close>, which the reported table leaves out.
\<close>

theorem C10_reported_table:
  assumes "length a = length patient_id" and "length g = length patient_id"
  shows "\<not> isl (calculate_iptw_weights_on patient_id a g now w0)
    \<and> map fst (results_table (fst (projr (calculate_iptw_weights_on patient_id a g now w0))))
        = [''Patient ID'', ''A (Treatment)'', ''g (Propensity Score)'', ''Raw IPTW'',
           ''Stabilized IPTW'']
    \<and> column (results_table (fst (projr (calculate_iptw_weights_on patient_id a g now w0))))
          ''Patient ID'' = map I patient_id
    \<and> column (results_table (fst (projr (calculate_iptw_weights_on patient_id a g now w0))))
          ''A (Treatment)'' = map I a
    \<and> column (results_table (fst (projr (calculate_iptw_weights_on patient_id a g now w0))))
          ''g (Propensity Score)'' = map F g
    \<and> column (results_table (fst (projr (calculate_iptw_weights_on patient_id a g now w0))))
          ''Raw IPTW'' = map F (raw_weights (conditional_probability a g))
    \<and> column (results_table (fst (projr (calculate_iptw_weights_on patient_id a g now w0))))
          ''Stabilized IPTW''
        = map F (stabilized_weights (marginal_probability a) (conditional_probability a g))
    \<and> map fst (df (fst (projr (calculate_iptw_weights_on patient_id a g now w0))))
        = [''Patient ID'', ''A (Treatment)'', ''g (Propensity Score)'', ''P(A|L)'', ''Raw IPTW'',
           ''P(A)'', ''Stabilized IPTW'']
    \<and> column (df (fst (projr (calculate_iptw_weights_on patient_id a g now w0)))) ''P(A|L)''
        = map F (conditional_probability a g)
    \<and> column (df (fst (projr (calculate_iptw_weights_on patient_id a g now w0)))) ''P(A)''
        = map F (marginal_probability a)
    \<and> ''P(A|L)''
        \<notin> set (map fst (results_table (fst (projr
              (calculate_iptw_weights_on patient_id a g now w0)))))
    \<and> ''P(A)''
        \<notin> set (map fst (results_table (fst (projr
              (calculate_iptw_weights_on patient_id a g now w0)))))
    \<and> Markdown (results_table (fst (projr (calculate_iptw_weights_on patient_id a g now w0))))
          (Some ''.4f'')
        \<in> set (drop (length (stdout w0))
              (stdout (snd (projr (calculate_iptw_weights_on patient_id a g now w0)))))
    \<and> disk (snd (projr (calculate_iptw_weights_on patient_id a g now w0))) OUTPUT_FILEPATH_B
        = Some (metadata_B now
            @ to_csv (results_table (fst (projr
                (calculate_iptw_weights_on patient_id a g now w0)))) (Some 4))
    \<and> csv_row (map fst (results_table (fst (projr
          (calculate_iptw_weights_on patient_id a g now w0)))))
        = ''Patient ID,A (Treatment),g (Propensity Score),Raw IPTW,Stabilized IPTW'' @ [newline]"
proof -
  note run = calculate_iptw_weights_on_Inr [OF assms(1) assms(2), of now w0]
  have header: "csv_row [''Patient ID'', ''A (Treatment)'', ''g (Propensity Score)'', ''Raw IPTW'',
      ''Stabilized IPTW'']
      = ''Patient ID,A (Treatment),g (Propensity Score),Raw IPTW,Stabilized IPTW'' @ [newline]"
    by (simp add: csv_row_def csv_field_def dquote_def newline_def)
  show ?thesis
    unfolding run using header by (simp add: column_simps)
qed

text \<open>The theorem at the cohort of the source.\<close>

theorem C10_reported_table_witness:
  "length [1, 1, 0, 0 :: int] = length [1, 2, 3, 4 :: int]
   \<and> length [literal (8 / 10), literal (4 / 10), literal (9 / 10), literal (2 / 10)]
       = length [1, 2, 3, 4 :: int]
   \<and> map fst (results_table (fst (projr (calculate_iptw_weights
        \<lparr>year = 2025, month = 11, day = 3, hour = 9, minute = 5, second = 0\<rparr> empty_world))))
       = [''Patient ID'', ''A (Treatment)'', ''g (Propensity Score)'', ''Raw IPTW'',
          ''Stabilized IPTW'']
   \<and> column (results_table (fst (projr (calculate_iptw_weights
        \<lparr>year = 2025, month = 11, day = 3, hour = 9, minute = 5, second = 0\<rparr> empty_world))))
        ''Patient ID'' = [I 1, I 2, I 3, I 4]
   \<and> column (results_table (fst (projr (calculate_iptw_weights
        \<lparr>year = 2025, month = 11, day = 3, hour = 9, minute = 5, second = 0\<rparr> empty_world))))
        ''A (Treatment)'' = [I 1, I 1, I 0, I 0]
   \<and> column (results_table (fst (projr (calculate_iptw_weights
        \<lparr>year = 2025, month = 11, day = 3, hour = 9, minute = 5, second = 0\<rparr> empty_world))))
        ''g (Propensity Score)''
       = [F (literal (8 / 10)), F (literal (4 / 10)), F (literal (9 / 10)), F (literal (2 / 10))]"
proof -
  have l: "length [1, 1, 0, 0 :: int] = length [1, 2, 3, 4 :: int]"
    "length [literal (8 / 10), literal (4 / 10), literal (9 / 10), literal (2 / 10)]
      = length [1, 2, 3, 4 :: int]"
    by simp_all
  note t = C10_reported_table [OF l, of
      "\<lparr>year = 2025, month = 11, day = 3, hour = 9, minute = 5, second = 0\<rparr>" empty_world,
      folded calculate_iptw_weights_def]
  have m: "map I [1, 2, 3, 4] = [I 1, I 2, I 3, I 4]" "map I [1, 1, 0, 0] = [I 1, I 1, I 0, I 0]"
    "map F [literal (8 / 10), literal (4 / 10), literal (9 / 10), literal (2 / 10)]
      = [F (literal (8 / 10)), F (literal (4 / 10)), F (literal (9 / 10)), F (literal (2 / 10))]"
    by simp_all
  show ?thesis
    using l t [unfolded m] by blast
qed

end
